theory Spec2Isabelle
  imports Complex_Main
begin

section \<open>Python text primitives used by the TLE codec\<close>

text \<open>
  Lines are modelled as ASCII text, the character set of the TLE format: a Python
  \<^verbatim>\<open>str\<close> is a \<^typ>\<open>string\<close>, one \<^typ>\<open>char\<close> per character. Python integers are
  \<^typ>\<open>int\<close>. Every \<^verbatim>\<open>raise\<close> of the source is a value of \<open>error\<close>; in Python all
  of them are \<^verbatim>\<open>ValueError\<close>s told apart by their message, here by constructor:
  \<^item> \<open>FormatError n template line\<close>: \<^verbatim>\<open>ValueError(error_message.format(n, template, line))\<close>;
  \<^item> \<open>MismatchError\<close>: \<^verbatim>\<open>ValueError('Object numbers in lines 1 and 2 do not match')\<close>;
  \<^item> \<open>ChecksumError given computed line\<close>: the complaint of \<^verbatim>\<open>verify_checksum\<close>;
  \<^item> \<open>LiteralError s\<close>: the \<^verbatim>\<open>ValueError\<close> of \<^verbatim>\<open>int(s)\<close> or \<^verbatim>\<open>float(s)\<close> on an ill-formed literal.
\<close>

datatype error =
    FormatError nat string string
  | MismatchError
  | ChecksumError int int string
  | LiteralError string
  | NonFinite string
  | DateError
  | ZeroDivisionError
  | ComplexResult
  | TypeError
  | IndexError
  | MathDomainError

definition code_of :: "char \<Rightarrow> nat" where
  "code_of c = of_char c"

text \<open>\<^verbatim>\<open>c.isdigit()\<close> on an ASCII character.\<close>

definition isdigit :: "char \<Rightarrow> bool" where
  "isdigit c = (48 \<le> code_of c \<and> code_of c \<le> 57)"

text \<open>\<^verbatim>\<open>s.isdigit()\<close> on a string: non-empty and digits only.\<close>

definition str_isdigit :: "string \<Rightarrow> bool" where
  "str_isdigit s = (s \<noteq> [] \<and> list_all isdigit s)"

text \<open>\<^verbatim>\<open>c.isspace()\<close> on an ASCII character: tab, newline, vertical tab, form feed,
  carriage return, the four separators 0x1c..0x1f, and the space.\<close>

definition isspace :: "char \<Rightarrow> bool" where
  "isspace c = ((9 \<le> code_of c \<and> code_of c \<le> 13) \<or> (28 \<le> code_of c \<and> code_of c \<le> 32))"

definition lstrip :: "string \<Rightarrow> string" where
  "lstrip s = dropWhile isspace s"

definition rstrip :: "string \<Rightarrow> string" where
  "rstrip s = rev (dropWhile isspace (rev s))"

definition strip :: "string \<Rightarrow> string" where
  "strip s = lstrip (rstrip s)"

text \<open>\<^verbatim>\<open>xs[i:j]\<close> for literal bounds \<open>0 \<le> i \<le> j\<close>; Python clamps both to the length.\<close>

definition py_slice :: "nat \<Rightarrow> nat \<Rightarrow> 'a list \<Rightarrow> 'a list" where
  "py_slice i j xs = take (j - i) (drop i xs)"


text \<open>\<^verbatim>\<open>s.rjust(n, fill)\<close>: the padding done by a right-aligning format specification.\<close>

definition rjust :: "nat \<Rightarrow> char \<Rightarrow> string \<Rightarrow> string" where
  "rjust n fill s = replicate (n - length s) fill @ s"

definition digit_char :: "nat \<Rightarrow> char" where
  "digit_char d = char_of (48 + d)"

definition digit_value :: "char \<Rightarrow> nat" where
  "digit_value c = code_of c - 48"

fun digits_of :: "nat \<Rightarrow> string" where
  "digits_of n = (if n < 10 then [digit_char n] else digits_of (n div 10) @ [digit_char (n mod 10)])"

declare digits_of.simps [simp del]

text \<open>\<^verbatim>\<open>str(i)\<close> for a Python integer.\<close>

definition py_str :: "int \<Rightarrow> string" where
  "py_str i = (if i < 0 then CHR ''-'' # digits_of (nat (- i)) else digits_of (nat i))"

text \<open>
  \<^verbatim>\<open>int(s)\<close> on a string: surrounding whitespace is stripped, one sign is allowed, and
  the rest must be decimal digits, where single underscores may separate digits.
\<close>

fun digit_groups :: "bool \<Rightarrow> string \<Rightarrow> bool" where
  "digit_groups prev_digit [] = prev_digit"
| "digit_groups prev_digit (c # cs) =
     (if isdigit c then digit_groups True cs
      else if c = CHR ''_'' \<and> prev_digit then digit_groups False cs
      else False)"

definition digits_ok :: "string \<Rightarrow> bool" where
  "digits_ok s = digit_groups False s"

definition digits_val :: "string \<Rightarrow> nat" where
  "digits_val s = foldl (\<lambda>acc c. 10 * acc + digit_value c) 0 (filter isdigit s)"

definition split_sign :: "string \<Rightarrow> bool \<times> string" where
  "split_sign s =
     (case s of
        [] \<Rightarrow> (False, [])
      | c # cs \<Rightarrow> if c = CHR ''-'' then (True, cs)
                 else if c = CHR ''+'' then (False, cs)
                 else (False, s))"

definition py_int :: "string \<Rightarrow> error + int" where
  "py_int s =
     (let (neg, body) = split_sign (strip s)
      in if digits_ok body
         then Inr (if neg then - int (digits_val body) else int (digits_val body))
         else Inl (LiteralError s))"

section \<open>Checksum unit\<close>

text \<open>
  \<^verbatim>\<open>sum((int(c) if c.isdigit() else c == '-') for c in line[0:68]) % 10\<close>: the
  boolean \<^verbatim>\<open>c == '-'\<close> counts as 1 or 0 in the sum, which starts from 0 and adds
  from the left.
\<close>

definition checksum_term :: "char \<Rightarrow> int" where
  "checksum_term c = (if isdigit c then int (digit_value c) else of_bool (c = CHR ''-''))"

definition compute_checksum :: "string \<Rightarrow> int" where
  "compute_checksum line = foldl (+) 0 (map checksum_term (py_slice 0 68 line)) mod 10"


fun verify_checksum :: "string list \<Rightarrow> error + unit" where
  "verify_checksum [] = Inr ()"
| "verify_checksum (line # lines) =
     (let checksum = py_slice 68 69 line
      in if \<not> str_isdigit checksum then verify_checksum lines
         else (case py_int checksum of
                 Inl e \<Rightarrow> Inl e
               | Inr given \<Rightarrow>
                   (let computed = compute_checksum line
                    in if given \<noteq> computed then Inl (ChecksumError given computed line)
                       else verify_checksum lines)))"

text \<open>The checksum as section 4.3 of the specification words it: the value each
  character contributes, summed over the first 68 characters, modulo 10.\<close>

definition char_values :: "(char \<times> nat) list" where
  "char_values = zip ''0123456789-'' [0, 1, 2, 3, 4, 5, 6, 7, 8, 9, 1]"

definition spec_char_value :: "char \<Rightarrow> nat" where
  "spec_char_value c = (case map_of char_values c of Some v \<Rightarrow> v | None \<Rightarrow> 0)"

definition spec_checksum :: "string \<Rightarrow> nat" where
  "spec_checksum line = sum_list (map spec_char_value (take 68 line)) mod 10"

section \<open>Python number literals\<close>

text \<open>
  Floating-point numbers are idealised as real numbers: a literal denotes its exact
  decimal value, arithmetic is exact, and there is no rounding, overflow or negative
  zero. \<^verbatim>\<open>float(s)\<close> strips surrounding whitespace and accepts an optional sign
  followed by digits with at most one period (digits on at least one side of it) and an
  optional exponent. The literals \<^verbatim>\<open>inf\<close>, \<^verbatim>\<open>infinity\<close> and \<^verbatim>\<open>nan\<close>, which Python
  accepts in any letter case, have no real value: the embedding reports them as the
  outcome \<open>NonFinite\<close>, apart from the \<^verbatim>\<open>ValueError\<close> of an ill-formed literal.
\<close>

definition and_then :: "error + 'a \<Rightarrow> ('a \<Rightarrow> error + 'b) \<Rightarrow> error + 'b" where
  "and_then r f = (case r of Inl e \<Rightarrow> Inl e | Inr v \<Rightarrow> f v)"

definition lower :: "char \<Rightarrow> char" where
  "lower c = (if 65 \<le> code_of c \<and> code_of c \<le> 90 then char_of (code_of c + 32) else c)"

definition is_exp_mark :: "char \<Rightarrow> bool" where
  "is_exp_mark c = (c = CHR ''e'' \<or> c = CHR ''E'')"

definition is_period :: "char \<Rightarrow> bool" where
  "is_period c = (c = CHR ''.'')"

definition pow10 :: "int \<Rightarrow> real" where
  "pow10 e = (if 0 \<le> e then 10 ^ nat e else 1 / 10 ^ nat (- e))"

definition digit_count :: "string \<Rightarrow> nat" where
  "digit_count s = length (filter isdigit s)"

text \<open>The part before the exponent: \<^verbatim>\<open>[digitpart] "." digitpart | digitpart ["."]\<close>.\<close>

definition number_ok :: "string \<Rightarrow> bool" where
  "number_ok m =
     (let ip = takeWhile (\<lambda>c. \<not> is_period c) m;
          rest = dropWhile (\<lambda>c. \<not> is_period c) m
      in if rest = [] then digits_ok ip
         else (ip = [] \<or> digits_ok ip) \<and> (tl rest = [] \<or> digits_ok (tl rest))
              \<and> (ip \<noteq> [] \<or> tl rest \<noteq> []))"

definition number_val :: "string \<Rightarrow> real" where
  "number_val m =
     (let ip = takeWhile (\<lambda>c. \<not> is_period c) m;
          fp = drop 1 (dropWhile (\<lambda>c. \<not> is_period c) m)
      in real (digits_val ip) + real (digits_val fp) / 10 ^ digit_count fp)"

text \<open>The exponent: \<^verbatim>\<open>("e" | "E") [sign] digitpart\<close>, or nothing.\<close>

definition exponent_ok :: "string \<Rightarrow> bool" where
  "exponent_ok x = (x = [] \<or> digits_ok (snd (split_sign (tl x))))"

definition exponent_val :: "string \<Rightarrow> int" where
  "exponent_val x =
     (if x = [] then 0
      else (let (neg, body) = split_sign (tl x)
            in if neg then - int (digits_val body) else int (digits_val body)))"

definition py_float :: "string \<Rightarrow> error + real" where
  "py_float s =
     (let (neg, body) = split_sign (strip s);
          m = takeWhile (\<lambda>c. \<not> is_exp_mark c) body;
          x = dropWhile (\<lambda>c. \<not> is_exp_mark c) body
      in if map lower body \<in> set [''inf'', ''infinity'', ''nan''] then Inl (NonFinite s)
         else if number_ok m \<and> exponent_ok x
         then Inr ((if neg then - 1 else 1) * number_val m * pow10 (exponent_val x))
         else Inl (LiteralError s))"

section \<open>TLE line parser\<close>

definition LINE1 :: string where
  "LINE1 = ''1 NNNNNC NNNNNAAA NNNNN.NNNNNNNN +.NNNNNNNN +NNNNN-N +NNNNN-N N NNNNN''"

definition LINE2 :: string where
  "LINE2 = ''2 NNNNN NNN.NNNN NNN.NNNN NNNNNNN NNN.NNNN NNN.NNNN NN.NNNNNNNNNNNNNN''"






definition startswith :: "string \<Rightarrow> string \<Rightarrow> bool" where
  "startswith s prefix = (take (length prefix) s = prefix)"

text \<open>\<^verbatim>\<open>a or b\<close> on strings: the empty string is false.\<close>

definition py_or :: "string \<Rightarrow> string \<Rightarrow> string" where
  "py_or a b = (if a = [] then b else a)"

text \<open>The guard of the first \<^verbatim>\<open>if\<close> of \<^verbatim>\<open>twoline2rv\<close>. The indices are read only when
  the length test has passed, as Python's \<^verbatim>\<open>and\<close> does.\<close>

definition line1_ok :: "string \<Rightarrow> bool" where
  "line1_ok line =
     (length line \<ge> 64 \<and>
      startswith line ''1 '' \<and>
      line ! 8 = CHR '' '' \<and>
      line ! 23 = CHR ''.'' \<and>
      line ! 32 = CHR '' '' \<and>
      line ! 34 = CHR ''.'' \<and>
      line ! 43 = CHR '' '' \<and>
      line ! 52 = CHR '' '' \<and>
      line ! 61 = CHR '' '' \<and>
      line ! 63 = CHR '' '')"

definition line2_ok :: "string \<Rightarrow> bool" where
  "line2_ok line =
     (length line \<ge> 69 \<and>
      startswith line ''2 '' \<and>
      line ! 7 = CHR '' '' \<and>
      line ! 11 = CHR ''.'' \<and>
      line ! 16 = CHR '' '' \<and>
      line ! 20 = CHR ''.'' \<and>
      line ! 25 = CHR '' '' \<and>
      line ! 33 = CHR '' '' \<and>
      line ! 37 = CHR ''.'' \<and>
      line ! 42 = CHR '' '' \<and>
      line ! 46 = CHR ''.'' \<and>
      line ! 51 = CHR '' '')"

text \<open>The local variables that the two branches of \<^verbatim>\<open>twoline2rv\<close> assign.\<close>

record line1_fields =
  l1_saved_satnum :: int
  l1_classification :: string
  l1_intldesg :: string
  l1_two_digit_year :: int
  l1_epochdays :: real
  l1_ndot :: real
  l1_nddot :: real
  l1_nexp :: int
  l1_bstar :: real
  l1_ibexp :: int
  l1_elnum :: int

record line2_fields =
  l2_satnum :: int
  l2_inclo :: real
  l2_nodeo :: real
  l2_ecco :: real
  l2_argpo :: real
  l2_mo :: real
  l2_no_kozai :: real
  l2_revnum :: int

definition parse_line1 :: "string \<Rightarrow> error + line1_fields" where
  "parse_line1 line =
     (if line1_ok line then
        and_then (py_int (py_slice 2 7 line)) (\<lambda>saved_satnum.
        and_then (py_int (py_slice 18 20 line)) (\<lambda>two_digit_year.
        and_then (py_float (py_slice 20 32 line)) (\<lambda>epochdays.
        and_then (py_float (py_slice 33 43 line)) (\<lambda>ndot.
        and_then (py_float (line ! 44 # CHR ''.'' # py_slice 45 50 line)) (\<lambda>nddot.
        and_then (py_int (py_slice 50 52 line)) (\<lambda>nexp.
        and_then (py_float (line ! 53 # CHR ''.'' # py_slice 54 59 line)) (\<lambda>bstar.
        and_then (py_int (py_slice 59 61 line)) (\<lambda>ibexp.
        and_then (py_int (py_slice 64 68 line)) (\<lambda>elnum.
        Inr \<lparr> l1_saved_satnum = saved_satnum,
              l1_classification = py_or [line ! 7] ''U'',
              l1_intldesg = py_slice 9 17 line,
              l1_two_digit_year = two_digit_year,
              l1_epochdays = epochdays,
              l1_ndot = ndot,
              l1_nddot = nddot,
              l1_nexp = nexp,
              l1_bstar = bstar,
              l1_ibexp = ibexp,
              l1_elnum = elnum \<rparr>)))))))))
      else Inl (FormatError 1 LINE1 line))"

text \<open>\<^verbatim>\<open>s.replace(' ', '0')\<close>.\<close>

definition replace_space_zero :: "string \<Rightarrow> string" where
  "replace_space_zero s = map (\<lambda>c. if c = CHR '' '' then CHR ''0'' else c) s"

definition parse_line2 :: "int \<Rightarrow> string \<Rightarrow> error + line2_fields" where
  "parse_line2 saved_satnum line =
     (if line2_ok line then
        and_then (py_int (py_slice 2 7 line)) (\<lambda>satnum.
        if saved_satnum \<noteq> satnum then Inl MismatchError else
        and_then (py_float (py_slice 8 16 line)) (\<lambda>inclo.
        and_then (py_float (py_slice 17 25 line)) (\<lambda>nodeo.
        and_then (py_float (''0.'' @ replace_space_zero (py_slice 26 33 line))) (\<lambda>ecco.
        and_then (py_float (py_slice 34 42 line)) (\<lambda>argpo.
        and_then (py_float (py_slice 43 51 line)) (\<lambda>mo.
        and_then (py_float (py_slice 52 63 line)) (\<lambda>no_kozai.
        and_then (py_int (py_slice 63 68 line)) (\<lambda>revnum.
        Inr \<lparr> l2_satnum = satnum,
              l2_inclo = inclo,
              l2_nodeo = nodeo,
              l2_ecco = ecco,
              l2_argpo = argpo,
              l2_mo = mo,
              l2_no_kozai = no_kozai,
              l2_revnum = revnum \<rparr>))))))))
      else Inl (FormatError 2 LINE2 line))"

section \<open>Orbital element entity\<close>

text \<open>\<^verbatim>\<open>datetime.datetime\<close>: the constructor raises \<^verbatim>\<open>ValueError\<close> when a component is
  out of range; the calendar is the proleptic Gregorian one.\<close>

record datetime =
  year :: int
  month :: int
  day :: int
  hour :: int
  minute :: int
  second :: int
  microsecond :: int

definition is_leap :: "int \<Rightarrow> bool" where
  "is_leap y = (y mod 4 = 0 \<and> (if y mod 100 = 0 then y mod 400 = 0 else True))"

definition days_in_month :: "int \<Rightarrow> int \<Rightarrow> int" where
  "days_in_month y m =
     (if m = 2 then (if is_leap y then 29 else 28)
      else if m = 4 \<or> m = 6 \<or> m = 9 \<or> m = 11 then 30 else 31)"

definition days_before_month :: "int \<Rightarrow> int \<Rightarrow> int" where
  "days_before_month y m = sum_list (map (days_in_month y) [1..m - 1])"

definition py_datetime :: "int \<Rightarrow> int \<Rightarrow> int \<Rightarrow> int \<Rightarrow> int \<Rightarrow> int \<Rightarrow> int \<Rightarrow> error + datetime" where
  "py_datetime y mon d h mi s us =
     (if 1 \<le> y \<and> y \<le> 9999 \<and> 1 \<le> mon \<and> mon \<le> 12 \<and> 1 \<le> d \<and> d \<le> days_in_month y mon
         \<and> 0 \<le> h \<and> h \<le> 23 \<and> 0 \<le> mi \<and> mi \<le> 59 \<and> 0 \<le> s \<and> s \<le> 59
         \<and> 0 \<le> us \<and> us \<le> 999999
      then Inr \<lparr> year = y, month = mon, day = d, hour = h, minute = mi, second = s,
                 microsecond = us \<rparr>
      else Inl DateError)"

text \<open>A gravitational-constant set; the entity reads only \<^verbatim>\<open>tumin\<close> of it.\<close>

record earth_gravity =
  tumin :: real

text \<open>
  The collaborators that the sources import and do not contain. \<^verbatim>\<open>days2mdhms\<close> and
  \<^verbatim>\<open>jday\<close> (module \<^verbatim>\<open>ext\<close>) are parameters of the model.

  Modelled from the spec: \<^verbatim>\<open>sgp4init\<close> (module \<^verbatim>\<open>propagation\<close>) is missing from the
  sources. The specification says that the propagator populates the status code of the
  entity (0 is nominal), that an initialisation failure is recorded there and not
  raised, and that it otherwise touches only its own bookkeeping, never a canonical
  element: so the collaborator is a function from its arguments to the status code.
\<close>

record collaborators =
  days2mdhms :: "int \<Rightarrow> real \<Rightarrow> int \<times> int \<times> int \<times> int \<times> real"
  jday :: "int \<Rightarrow> int \<Rightarrow> int \<Rightarrow> int \<Rightarrow> int \<Rightarrow> real \<Rightarrow> real"
  sgp4init :: "earth_gravity \<Rightarrow> bool \<Rightarrow> int \<Rightarrow> real \<Rightarrow> real \<Rightarrow> real \<Rightarrow> real \<Rightarrow> real \<Rightarrow> real
               \<Rightarrow> real \<Rightarrow> real \<Rightarrow> int"

text \<open>The attributes that \<^verbatim>\<open>Satellite.__init__\<close> assigns; the semi-major axis
  \<^verbatim>\<open>self.a\<close> is the field \<open>a_axis\<close>.\<close>

record Satellite =
  whichconst :: earth_gravity
  satnum :: int
  epoch :: datetime
  epochyr :: int
  jdsatepoch :: real
  epochdays :: real
  bstar :: real
  inclo :: real
  nodeo :: real
  ecco :: real
  argpo :: real
  mo :: real
  no_kozai :: real
  a_axis :: real
  alta :: real
  altp :: real
  ndot :: real
  nddot :: real
  classification :: string
  intldesg :: "string option"
  elnum :: int
  revnum :: int
  error :: int

text \<open>
  \<^verbatim>\<open>pow(x, -2.0 / 3.0)\<close> with the built-in \<^verbatim>\<open>pow\<close>: a zero base raises
  \<^verbatim>\<open>ZeroDivisionError\<close>; a negative base yields a complex number, which the real-valued
  fields cannot hold and which the model reports as the outcome \<open>ComplexResult\<close>.
\<close>

definition py_pow :: "real \<Rightarrow> real \<Rightarrow> error + real" where
  "py_pow x y =
     (if x = 0 \<and> y < 0 then Inl ZeroDivisionError
      else if x < 0 \<and> of_int \<lfloor>y\<rfloor> \<noteq> y then Inl ComplexResult
      else if x < 0 then Inr (if even \<lfloor>y\<rfloor> then (- x) powr y else - ((- x) powr y))
      else if x = 0 then Inr (if y = 0 then 1 else 0)
      else Inr (x powr y))"

definition Satellite_init ::
  "collaborators \<Rightarrow> earth_gravity \<Rightarrow> int \<Rightarrow> datetime \<Rightarrow> real \<Rightarrow> real \<Rightarrow> real \<Rightarrow> real \<Rightarrow> real
   \<Rightarrow> real \<Rightarrow> real \<Rightarrow> real \<Rightarrow> real \<Rightarrow> string \<Rightarrow> string option \<Rightarrow> int \<Rightarrow> int \<Rightarrow> bool
   \<Rightarrow> error + Satellite" where
  "Satellite_init env wc satnum' epoch' bstar' inclo' nodeo' ecco' argpo' mo' no_kozai'
       ndot' nddot' classification' intldesg' elnum' revnum' afspc_mode =
     (let jdsatepoch' = jday env (year epoch') (month epoch') (day epoch') (hour epoch')
                          (minute epoch')
                          (of_int (second epoch') + 1 / 10 ^ 6 * of_int (microsecond epoch'));
          days_in_the_year = days_before_month (year epoch') (month epoch') + day epoch' - 1 + 1;
          epochdays' = of_int days_in_the_year
                       + (of_int (hour epoch') + of_int (minute epoch') / 60
                          + (of_int (second epoch') + 1 / 10 ^ 6 * of_int (microsecond epoch'))
                            / 60 / 60) / 24
      in and_then (py_pow (no_kozai' * tumin wc) (- 2 / 3)) (\<lambda>a'.
           let alta' = a' * (1 + ecco') - 1;
               altp' = a' * (1 - ecco') - 1
           in Inr \<lparr> whichconst = wc, satnum = satnum', epoch = epoch', epochyr = year epoch',
                     jdsatepoch = jdsatepoch', epochdays = epochdays', bstar = bstar',
                     inclo = inclo', nodeo = nodeo', ecco = ecco', argpo = argpo', mo = mo',
                     no_kozai = no_kozai', a_axis = a', alta = alta', altp = altp',
                     ndot = ndot', nddot = nddot', classification = classification',
                     intldesg = intldesg', elnum = elnum', revnum = revnum',
                     error = sgp4init env wc afspc_mode satnum' (jdsatepoch' - 24332815 / 10)
                               bstar' ecco' argpo' inclo' mo' no_kozai' nodeo' \<rparr>))"

section \<open>Unit conversion and entity construction from two lines\<close>

definition deg2rad :: real where
  "deg2rad = pi / 180"

definition xpdotp :: real where
  "xpdotp = 1440 / (2 * pi)"

text \<open>The century rule of \<^verbatim>\<open>twoline2rv\<close> for the two-digit epoch year.\<close>

definition epoch_year :: "int \<Rightarrow> int" where
  "epoch_year two_digit_year =
     (if two_digit_year < 57 then two_digit_year + 2000 else two_digit_year + 1900)"

definition twoline2rv :: "collaborators \<Rightarrow> string \<Rightarrow> string \<Rightarrow> earth_gravity \<Rightarrow> bool \<Rightarrow> error + Satellite" where
  "twoline2rv env longstr1 longstr2 wc afspc_mode =
     and_then (parse_line1 (rstrip longstr1)) (\<lambda>f1.
     and_then (parse_line2 (l1_saved_satnum f1) (rstrip longstr2)) (\<lambda>f2.
       let no_kozai1 = l2_no_kozai f2 / xpdotp;
           nddot1 = l1_nddot f1 * pow10 (l1_nexp f1);
           bstar1 = l1_bstar f1 * pow10 (l1_ibexp f1);
           ndot1 = l1_ndot f1 / (xpdotp * 1440);
           nddot2 = nddot1 / (xpdotp * 1440 * 1440);
           inclo1 = l2_inclo f2 * deg2rad;
           nodeo1 = l2_nodeo f2 * deg2rad;
           argpo1 = l2_argpo f2 * deg2rad;
           mo1 = l2_mo f2 * deg2rad;
           year1 = epoch_year (l1_two_digit_year f1);
           (mon, day1, hr, minute1, sec) = days2mdhms env year1 (l1_epochdays f1);
           sec_whole = \<lfloor>sec\<rfloor>;
           sec_fraction = sec - of_int \<lfloor>sec\<rfloor>
       in and_then (py_datetime year1 mon day1 hr minute1 sec_whole \<lfloor>sec_fraction * 1000000\<rfloor>)
            (\<lambda>epoch1.
              Satellite_init env wc (l2_satnum f2) epoch1 bstar1 inclo1 nodeo1 (l2_ecco f2)
                argpo1 mo1 no_kozai1 ndot1 nddot2 (l1_classification f1)
                (Some (l1_intldesg f1)) (l1_elnum f1) (l2_revnum f2) afspc_mode)))"

section \<open>TLE formatter\<close>

text \<open>
  The formatter fills a Python list that starts as 69 one-character strings. An index
  assignment \<^verbatim>\<open>l[i] = v\<close> stores the string \<open>v\<close> whole in one slot and raises
  \<^verbatim>\<open>IndexError\<close> outside the list; a slice assignment \<^verbatim>\<open>l[i:j] = s\<close> replaces the
  slots \<open>i..<j\<close> by the characters of \<open>s\<close>, one slot each, however many there are, so
  it changes the length of the list when \<open>s\<close> has not exactly \<open>j - i\<close> characters.
\<close>

definition set_item :: "nat \<Rightarrow> string \<Rightarrow> string list \<Rightarrow> error + string list" where
  "set_item i v l = (if i < length l then Inr (l[i := v]) else Inl IndexError)"

definition set_slice :: "nat \<Rightarrow> nat \<Rightarrow> string \<Rightarrow> string list \<Rightarrow> string list" where
  "set_slice i j s l = take i l @ map (\<lambda>c. [c]) s @ drop j l"

text \<open>\<^verbatim>\<open>"".join(l)\<close>.\<close>

definition join :: "string list \<Rightarrow> string" where
  "join l = concat l"

text \<open>\<^verbatim>\<open>int(x)\<close> on a float truncates towards zero.\<close>

definition py_trunc :: "real \<Rightarrow> int" where
  "py_trunc x = (if 0 \<le> x then \<lfloor>x\<rfloor> else \<lceil>x\<rceil>)"

text \<open>\<^verbatim>\<open>math.log10\<close> raises \<^verbatim>\<open>ValueError\<close> (math domain error) outside the positive
  numbers.\<close>

definition py_log10 :: "real \<Rightarrow> error + real" where
  "py_log10 x = (if 0 < x then Inr (log 10 x) else Inl MathDomainError)"

text \<open>Rounding to the nearest integer, ties to the even one, as the fixed-point
  presentation type \<^verbatim>\<open>f\<close> rounds the decimal expansion of its argument.\<close>

definition round_half_even :: "real \<Rightarrow> int" where
  "round_half_even x =
     (let f = \<lfloor>x\<rfloor>; d = x - of_int f
      in if d < 1 / 2 then f else if 1 / 2 < d then f + 1 else if even f then f else f + 1)"

text \<open>\<^verbatim>\<open>"{:.pf}".format(x)\<close> for a precision \<open>p > 0\<close>, before any padding.\<close>

definition fmt_f :: "nat \<Rightarrow> real \<Rightarrow> string" where
  "fmt_f p x =
     (let n = nat (round_half_even (\<bar>x\<bar> * 10 ^ p))
      in (if x < 0 then ''-'' else []) @ digits_of (n div 10 ^ p) @ ''.''
         @ rjust p CHR ''0'' (digits_of (n mod 10 ^ p)))"

text \<open>\<^verbatim>\<open>"{:>w.pf}".format(x)\<close>: right-aligned in \<open>w\<close> columns, padded with spaces.\<close>

definition fmt_right_f :: "nat \<Rightarrow> nat \<Rightarrow> real \<Rightarrow> string" where
  "fmt_right_f w p x = rjust w CHR '' '' (fmt_f p x)"

text \<open>\<^verbatim>\<open>"{:>0w.pf}".format(x)\<close>: with the alignment given, the zero flag only makes
  \<^verbatim>\<open>0\<close> the fill character.\<close>

definition fmt_right_zero_f :: "nat \<Rightarrow> nat \<Rightarrow> real \<Rightarrow> string" where
  "fmt_right_zero_f w p x = rjust w CHR ''0'' (fmt_f p x)"

text \<open>\<^verbatim>\<open>"{:=w.pf}".format(x)\<close>: the padding goes between the sign and the digits.\<close>

definition fmt_sign_aware_f :: "nat \<Rightarrow> nat \<Rightarrow> real \<Rightarrow> string" where
  "fmt_sign_aware_f w p x =
     (let s = fmt_f p \<bar>x\<bar>
      in if x < 0 then CHR ''-'' # rjust (w - 1) CHR '' '' s else rjust w CHR '' '' s)"

text \<open>\<^verbatim>\<open>"{:0wd}".format(i)\<close>: zero padding between the sign and the digits.\<close>

definition fmt_zero_d :: "nat \<Rightarrow> int \<Rightarrow> string" where
  "fmt_zero_d w i =
     (if i < 0 then CHR ''-'' # rjust (w - 1) CHR ''0'' (digits_of (nat (- i)))
      else rjust w CHR ''0'' (digits_of (nat i)))"

text \<open>\<^verbatim>\<open>"{:>wd}".format(i)\<close>.\<close>

definition fmt_right_d :: "nat \<Rightarrow> int \<Rightarrow> string" where
  "fmt_right_d w i = rjust w CHR '' '' (py_str i)"

text \<open>\<^verbatim>\<open>s.split(".")[-1]\<close>: what follows the last period, or all of \<open>s\<close>.\<close>

definition after_last_period :: "string \<Rightarrow> string" where
  "after_last_period s = rev (takeWhile (\<lambda>c. \<not> is_period c) (rev s))"

text \<open>\<^verbatim>\<open>s[-2:]\<close>.\<close>

definition last_two :: "string \<Rightarrow> string" where
  "last_two s = drop (length s - 2) s"

text \<open>The second derivative of the mean motion, columns 45 to 52 of line 1.\<close>

definition put_nddot :: "Satellite \<Rightarrow> string list \<Rightarrow> error + string list" where
  "put_nddot satrec l =
     (if nddot satrec = 0 then Inr (set_slice 45 52 ''00000-0'' l)
      else
        (let nddot1 = nddot satrec * (xpdotp * 1440 * 1440);
             nddot_module = \<bar>nddot1\<bar>
         in and_then (py_log10 nddot_module) (\<lambda>lg.
              let nexp = py_trunc lg;
                  ndot_fraction = 10 powr (lg - of_int nexp)
              in and_then (set_item 44 (if nddot1 < 0 then ''-'' else '' '') l) (\<lambda>l.
                   let l = set_slice 45 50 (drop 2 (fmt_right_f 1 5 ndot_fraction)) l
                   in Inr (set_slice 50 52
                             (if nexp < 0 then py_str nexp else ''+'' @ py_str nexp) l)))))"

text \<open>The drag term, columns 54 to 61 of line 1.\<close>

definition put_bstar :: "Satellite \<Rightarrow> string list \<Rightarrow> error + string list" where
  "put_bstar satrec l =
     (if bstar satrec = 0 then Inr (set_slice 54 61 ''00000+0'' l)
      else
        (let bstar_module = \<bar>bstar satrec\<bar>
         in and_then (py_log10 bstar_module) (\<lambda>lg.
              let ibexp0 = py_trunc lg;
                  ibexp = (if of_int ibexp0 - lg = 0 then ibexp0 + 1 else ibexp0);
                  bstar_frac = 10 powr (lg - of_int ibexp)
              in and_then (set_item 53 (if bstar satrec < 0 then ''-'' else '' '') l) (\<lambda>l.
                   let l = set_slice 54 59 (drop 2 (fmt_right_f 1 5 bstar_frac)) l
                   in Inr (set_slice 59 61
                             (if ibexp = 0 then ''-'' @ py_str ibexp else py_str ibexp) l)))))"

definition rv2twoline_line1 :: "Satellite \<Rightarrow> error + string" where
  "rv2twoline_line1 satrec =
     and_then (set_item 0 (py_str 1) (replicate 69 '' '')) (\<lambda>l.
     let l = set_slice 2 7 (fmt_zero_d 5 (satnum satrec)) l
     in and_then (set_item 7 (classification satrec) l) (\<lambda>l.
        case intldesg satrec of
          None \<Rightarrow> Inl TypeError
        | Some designator \<Rightarrow>
            (let l = set_slice 9 15 designator l;
                 l = set_slice 18 20 (last_two (py_str (epochyr satrec))) l;
                 l = set_slice 20 32 (fmt_right_zero_f 12 8 (epochdays satrec)) l;
                 ndot_min = ndot satrec * (xpdotp * 1440);
                 l = (if ndot_min < 0
                      then set_slice 33 43
                             (''-.'' @ after_last_period (fmt_sign_aware_f 8 8 ndot_min)) l
                      else set_slice 33 43
                             ('' .'' @ after_last_period (fmt_sign_aware_f 8 8 ndot_min)) l)
             in and_then (put_nddot satrec l) (\<lambda>l.
                and_then (put_bstar satrec l) (\<lambda>l.
                and_then (set_item 62 ''0'' l) (\<lambda>l.
                let l = set_slice 64 68 (fmt_right_d 4 (elnum satrec)) l
                in and_then (set_item 68 (py_str (compute_checksum (join l))) l) (\<lambda>l.
                   Inr (join l))))))))"

definition rv2twoline_line2 :: "Satellite \<Rightarrow> error + string" where
  "rv2twoline_line2 satrec =
     and_then (set_item 0 (py_str 2) (replicate 69 '' '')) (\<lambda>l.
     let l = set_slice 2 7 (fmt_zero_d 5 (satnum satrec)) l
     in and_then (py_log10 (inclo satrec / deg2rad)) (\<lambda>lg.
        let l = (if py_trunc lg = 2 then set_slice 8 16 (fmt_right_f 8 4 (inclo satrec / deg2rad)) l
                 else if py_trunc lg = 1
                 then set_slice 9 16 (fmt_right_f 7 4 (inclo satrec / deg2rad)) l
                 else set_slice 10 16 (fmt_right_f 6 4 (inclo satrec / deg2rad)) l);
            l = set_slice 17 25 (fmt_right_f 8 4 (nodeo satrec / deg2rad)) l;
            l = set_slice 26 33 (drop 2 (fmt_right_f 8 7 (ecco satrec))) l;
            l = set_slice 34 42 (fmt_right_f 8 4 (argpo satrec / deg2rad)) l;
            l = set_slice 43 51 (fmt_right_f 8 4 (mo satrec / deg2rad)) l;
            l = set_slice 52 63 (fmt_right_f 11 8 (no_kozai satrec * xpdotp)) l;
            l = set_slice 63 68 (fmt_right_d 5 (revnum satrec)) l
        in and_then (set_item 68 (py_str (compute_checksum (join l))) l) (\<lambda>l.
           Inr (join l))))"

definition rv2twoline :: "Satellite \<Rightarrow> error + string \<times> string" where
  "rv2twoline satrec =
     and_then (rv2twoline_line1 satrec) (\<lambda>line1.
     and_then (rv2twoline_line2 satrec) (\<lambda>line2.
     Inr (line1, line2)))"

section \<open>A reference element set\<close>

text \<open>
  The element set of the space station used in what follows, with collaborators that
  answer for its epoch: day 264.51782528 of 2008 is 20 September, 12:25:40.104192.
\<close>

definition iss_line1 :: string where
  "iss_line1 = ''1 25544U 98067A   08264.51782528 -.00002182  00000-0 -11606-4 0  2927''"

definition iss_line2 :: string where
  "iss_line2 = ''2 25544  51.6416 247.4627 0006703 130.5360 325.0288 15.72125391563537''"

definition reference_gravity :: earth_gravity where
  "reference_gravity = \<lparr> tumin = 1344684 / 100000 \<rparr>"

definition reference_env :: collaborators where
  "reference_env =
     \<lparr> days2mdhms = (\<lambda>y d. (9, 20, 12, 25, 40104192 / 1000000)),
       jday = (\<lambda>y mon d h mi s. 245473001782528 / 100000000),
       sgp4init = (\<lambda>wc afspc sn ep b e ar i m n nd. 0) \<rparr>"

definition iss_satellite :: Satellite where
  "iss_satellite =
     \<lparr> whichconst = reference_gravity, satnum = 25544,
       epoch = \<lparr> year = 2008, month = 9, day = 20, hour = 12, minute = 25, second = 40,
                 microsecond = 104192 \<rparr>,
       epochyr = 2008, jdsatepoch = 245473001782528 / 100000000,
       epochdays = 26451782528 / 100000000,
       bstar = - (11606 / 100000) / 10 ^ 4,
       inclo = 516416 / 10000 * deg2rad,
       nodeo = 2474627 / 10000 * deg2rad,
       ecco = 6703 / 10000000,
       argpo = 1305360 / 10000 * deg2rad,
       mo = 3250288 / 10000 * deg2rad,
       no_kozai = 1572125391 / 100000000 / xpdotp,
       a_axis = (1572125391 / 100000000 / xpdotp * (1344684 / 100000)) powr (- 2 / 3),
       alta = (1572125391 / 100000000 / xpdotp * (1344684 / 100000)) powr (- 2 / 3)
                * (1 + 6703 / 10000000) - 1,
       altp = (1572125391 / 100000000 / xpdotp * (1344684 / 100000)) powr (- 2 / 3)
                * (1 - 6703 / 10000000) - 1,
       ndot = - (2182 / 100000000) / (xpdotp * 1440), nddot = 0,
       classification = ''U'', intldesg = Some ''98067A  '', elnum = 292, revnum = 56353,
       error = 0 \<rparr>"

section \<open>Notions used by the properties\<close>

text \<open>A line whose 69th character is a decimal digit that differs from the checksum
  computed over its first 68 characters.\<close>

definition bad_checksum :: "string \<Rightarrow> bool" where
  "bad_checksum line =
     (68 < length line \<and> isdigit (line ! 68)
      \<and> int (digit_value (line ! 68)) \<noteq> compute_checksum line)"

text \<open>The reference line 1 with its checksum digit 7 replaced by 0, with a letter at
  the blank between designator and epoch (index 17), and with a letter at the blank
  after the classification (index 8); the reference line 2 with a letter at its first
  blank after the satellite number (index 7), and with a blank eccentricity field.\<close>

definition iss_line1_bad_checksum :: string where
  "iss_line1_bad_checksum = iss_line1[68 := CHR ''0'']"




definition line2_blank_ecc :: string where
  "line2_blank_ecc = ''2 25544  51.6416 247.4627         130.5360 325.0288 15.72125391563537''"

text \<open>The fixed-point text of \<open>n / 10 ^ p\<close> with \<open>p\<close> decimals: the integer part, a
  period, and \<open>p\<close> digits.\<close>

definition fixed_point :: "nat \<Rightarrow> nat \<Rightarrow> string" where
  "fixed_point p n =
     digits_of (n div 10 ^ p) @ ''.'' @ rjust p CHR ''0'' (digits_of (n mod 10 ^ p))"

text \<open>
  The elements of line 2 as the numbers that its columns can hold: the satellite and
  revolution numbers, the four angles in units of \<open>10\<^sup>-\<^sup>4\<close> degree, the eccentricity in
  units of \<open>10\<^sup>-\<^sup>7\<close> and the mean motion in units of \<open>10\<^sup>-\<^sup>8\<close> revolution per day.
\<close>

record line2_values =
  c_satnum :: nat
  c_incl :: nat
  c_node :: nat
  c_ecc :: nat
  c_argp :: nat
  c_mo :: nat
  c_mm :: nat
  c_revnum :: nat

text \<open>The values that fit the columns; the inclination is positive, as the formatter
  takes its logarithm.\<close>

definition line2_values_ok :: "line2_values \<Rightarrow> bool" where
  "line2_values_ok v =
     (c_satnum v < 10 ^ 5 \<and> 0 < c_incl v \<and> c_incl v < 10 ^ 7 \<and> c_node v < 10 ^ 7
      \<and> c_ecc v < 10 ^ 7 \<and> c_argp v < 10 ^ 7 \<and> c_mo v < 10 ^ 7 \<and> c_mm v < 10 ^ 10
      \<and> c_revnum v < 10 ^ 5)"

text \<open>Line 2 in the layout of the formatter: the first 68 columns, and the line with
  its checksum digit.\<close>

definition canonical_body2 :: "line2_values \<Rightarrow> string" where
  "canonical_body2 v =
     ''2 '' @ rjust 5 CHR ''0'' (digits_of (c_satnum v)) @ '' ''
     @ rjust 8 CHR '' '' (fixed_point 4 (c_incl v)) @ '' ''
     @ rjust 8 CHR '' '' (fixed_point 4 (c_node v)) @ '' ''
     @ rjust 7 CHR ''0'' (digits_of (c_ecc v)) @ '' ''
     @ rjust 8 CHR '' '' (fixed_point 4 (c_argp v)) @ '' ''
     @ rjust 8 CHR '' '' (fixed_point 4 (c_mo v)) @ '' ''
     @ rjust 11 CHR '' '' (fixed_point 8 (c_mm v))
     @ rjust 5 CHR '' '' (digits_of (c_revnum v))"

definition canonical_line2 :: "line2_values \<Rightarrow> string" where
  "canonical_line2 v = canonical_body2 v @ py_str (compute_checksum (canonical_body2 v))"

text \<open>An entity whose line 2 elements are these values, in the units of the entity.\<close>

definition has_line2_values :: "Satellite \<Rightarrow> line2_values \<Rightarrow> bool" where
  "has_line2_values sat v =
     (satnum sat = int (c_satnum v)
      \<and> inclo sat = real (c_incl v) / 10 ^ 4 * deg2rad
      \<and> nodeo sat = real (c_node v) / 10 ^ 4 * deg2rad
      \<and> ecco sat = real (c_ecc v) / 10 ^ 7
      \<and> argpo sat = real (c_argp v) / 10 ^ 4 * deg2rad
      \<and> mo sat = real (c_mo v) / 10 ^ 4 * deg2rad
      \<and> no_kozai sat = real (c_mm v) / 10 ^ 8 / xpdotp
      \<and> revnum sat = int (c_revnum v))"

text \<open>The line 2 values of the reference element set; the reference line 2 with the
  checksum digit 0 in place of 7; and the reference entity with the eccentricity one
  third, which the seven digits of the column cannot hold.\<close>

definition iss_values :: line2_values where
  "iss_values =
     \<lparr> c_satnum = 25544, c_incl = 516416, c_node = 2474627, c_ecc = 6703,
       c_argp = 1305360, c_mo = 3250288, c_mm = 1572125391, c_revnum = 56353 \<rparr>"

definition iss_line2_bad_checksum :: string where
  "iss_line2_bad_checksum = iss_line2[68 := CHR ''0'']"

definition third_satellite :: Satellite where
  "third_satellite =
     iss_satellite \<lparr> ecco := 1 / 3,
       alta := a_axis iss_satellite * (1 + 1 / 3) - 1,
       altp := a_axis iss_satellite * (1 - 1 / 3) - 1 \<rparr>"

definition third_line2 :: string where
  "third_line2 = ''2 25544  51.6416 247.4627 3333333 130.5360 325.0288 15.72125391563532''"

section \<open>Properties of the checksum unit\<close>

lemma code_of_char_of: "n < 256 \<Longrightarrow> code_of (char_of n) = n"
  by (simp add: code_of_def)

lemma char_eq_code: "(c = d) = (code_of c = code_of d)"
  by (auto simp: code_of_def)

lemma digit_cases:
  assumes "isdigit c"
  shows "c \<in> set ''0123456789''"
proof -
  from assms have "code_of c = 48 \<or> code_of c = 49 \<or> code_of c = 50 \<or> code_of c = 51
      \<or> code_of c = 52 \<or> code_of c = 53 \<or> code_of c = 54 \<or> code_of c = 55
      \<or> code_of c = 56 \<or> code_of c = 57"
    unfolding isdigit_def by arith
  then show ?thesis
    by (auto simp: char_eq_code code_of_def)
qed

lemma checksum_term_spec: "checksum_term c = int (spec_char_value c)"
proof (cases "isdigit c")
  case True
  from digit_cases[OF True] show ?thesis
    by (auto simp: checksum_term_def spec_char_value_def char_values_def isdigit_def digit_value_def code_of_def)
next
  case False
  then have "c \<notin> set ''0123456789''"
    by (auto simp: isdigit_def code_of_def)
  with False show ?thesis
    by (auto simp: checksum_term_def spec_char_value_def char_values_def)
qed

lemma foldl_add_sum_list: "foldl (+) a xs = (a::int) + sum_list xs"
  by (induction xs arbitrary: a) auto

lemma int_sum_list: "int (sum_list xs) = sum_list (map int xs)"
  by (induction xs) auto

text \<open>
  Claim C5. For every line, \<open>compute_checksum\<close> is the sum over the first 68 characters
  of the digit value of each decimal digit, 1 for each \<open>-\<close> and 0 for every other
  character, taken modulo 10.
\<close>

theorem compute_checksum_spec: "compute_checksum line = int (spec_checksum line)"
proof -
  have "map checksum_term (py_slice 0 68 line) = map (\<lambda>c. int (spec_char_value c)) (take 68 line)"
    by (simp add: py_slice_def checksum_term_spec)
  then have "foldl (+) 0 (map checksum_term (py_slice 0 68 line))
             = int (sum_list (map spec_char_value (take 68 line)))"
    by (simp add: foldl_add_sum_list comp_def int_sum_list)
  then show ?thesis
    by (simp add: compute_checksum_def spec_checksum_def zmod_int)
qed

lemma compute_checksum_range: "0 \<le> compute_checksum line \<and> compute_checksum line < 10"
  by (simp add: compute_checksum_def)

lemma py_str_digit: "0 \<le> d \<Longrightarrow> d < 10 \<Longrightarrow> py_str d = [digit_char (nat d)]"
  by (simp add: py_str_def digits_of.simps)

lemma isdigit_digit_char: "n < 10 \<Longrightarrow> isdigit (digit_char n)"
  by (simp add: isdigit_def digit_char_def code_of_def)

lemma digit_value_digit_char: "n < 10 \<Longrightarrow> digit_value (digit_char n) = n"
  by (simp add: digit_value_def digit_char_def code_of_def)

lemma not_isspace_digit: "isdigit c \<Longrightarrow> \<not> isspace c"
  by (auto simp: isdigit_def isspace_def)

lemma digit_not_sign: "isdigit c \<Longrightarrow> c \<noteq> CHR ''-'' \<and> c \<noteq> CHR ''+'' \<and> c \<noteq> CHR ''_''"
  by (auto simp: isdigit_def code_of_def)

lemma py_int_digit: "isdigit c \<Longrightarrow> py_int [c] = Inr (int (digit_value c))"
  using not_isspace_digit[of c] digit_not_sign[of c]
  by (simp add: py_int_def strip_def lstrip_def rstrip_def split_sign_def digits_ok_def digits_val_def)








section \<open>Evaluating the parser on the reference element set\<close>

lemmas literal_defs = py_int_def py_float_def strip_def lstrip_def rstrip_def split_sign_def
  isspace_def code_of_def lower_def is_exp_mark_def number_ok_def number_val_def
  exponent_ok_def exponent_val_def is_period_def digits_ok_def digits_val_def isdigit_def
  digit_value_def digit_count_def pow10_def

lemmas parser_defs = parse_line1_def line1_ok_def parse_line2_def line2_ok_def startswith_def
  py_slice_def and_then_def py_or_def replace_space_zero_def

lemma xpdotp_pos: "0 < xpdotp"
  by (simp add: xpdotp_def)

lemma parse_iss_line1:
  "parse_line1 (rstrip iss_line1) =
     Inr \<lparr> l1_saved_satnum = 25544, l1_classification = ''U'', l1_intldesg = ''98067A  '',
           l1_two_digit_year = 8, l1_epochdays = 26451782528 / 100000000,
           l1_ndot = - (2182 / 100000000), l1_nddot = 0, l1_nexp = 0,
           l1_bstar = - (11606 / 100000), l1_ibexp = - 4, l1_elnum = 292 \<rparr>"
  by (simp add: iss_line1_def parser_defs literal_defs)

lemma parse_iss_line2:
  "parse_line2 25544 (rstrip iss_line2) =
     Inr \<lparr> l2_satnum = 25544, l2_inclo = 516416 / 10000, l2_nodeo = 2474627 / 10000,
           l2_ecco = 6703 / 10000000, l2_argpo = 1305360 / 10000, l2_mo = 3250288 / 10000,
           l2_no_kozai = 1572125391 / 100000000, l2_revnum = 56353 \<rparr>"
  by (simp add: iss_line2_def parser_defs literal_defs)

lemma days_before_sep: "days_before_month 2008 9 = 244"
  by (simp add: days_before_month_def days_in_month_def is_leap_def upto.simps)

lemma iss_datetime: "py_datetime 2008 9 20 12 25 40 104192 = Inr \<lparr> year = 2008, month = 9, day = 20, hour = 12, minute = 25, second = 40,
                 microsecond = 104192 \<rparr>"
  by (simp add: py_datetime_def days_in_month_def)

lemma twoline2rv_iss:
  "twoline2rv reference_env iss_line1 iss_line2 reference_gravity False = Inr iss_satellite"
  using xpdotp_pos
  by (simp add: twoline2rv_def parse_iss_line1 parse_iss_line2 and_then_def Let_def
      epoch_year_def reference_env_def reference_gravity_def pow10_def iss_datetime
      Satellite_init_def days_before_sep py_pow_def iss_satellite_def)

section \<open>Epoch year\<close>

lemma py_datetime_year: "py_datetime y mon d h mi s us = Inr dt \<Longrightarrow> year dt = y"
  by (auto simp: py_datetime_def split: if_splits)

lemma Satellite_init_epochyr:
  "Satellite_init env wc sn ep b i n e ar m nk nd ndd c d el rv am = Inr sat \<Longrightarrow> epochyr sat = year ep"
  by (auto simp: Satellite_init_def Let_def and_then_def split: sum.splits)

lemma twoline2rv_epochyr:
  assumes "twoline2rv env longstr1 longstr2 wc afspc_mode = Inr sat"
    and "parse_line1 (rstrip longstr1) = Inr f1"
  shows "epochyr sat = epoch_year (l1_two_digit_year f1)"
  using assms
  by (auto simp: twoline2rv_def and_then_def Let_def split: sum.splits prod.splits
      dest!: py_datetime_year Satellite_init_epochyr)

text \<open>
  Claim C7. For every two-digit epoch year parsed from line 1, the epoch year of the
  entity built from the lines is that value plus 2000 when it lies in 0..56 and that
  value plus 1900 when it lies in 57..99; so 00, 56, 57 and 99 give 2000, 2056, 1957
  and 1999.
\<close>

theorem two_digit_year_resolution:
  assumes "parse_line1 (rstrip longstr1) = Inr f1"
    and "twoline2rv env longstr1 longstr2 wc afspc_mode = Inr sat"
  shows "(0 \<le> l1_two_digit_year f1 \<and> l1_two_digit_year f1 \<le> 56
            \<longrightarrow> epochyr sat = l1_two_digit_year f1 + 2000)
       \<and> (57 \<le> l1_two_digit_year f1 \<and> l1_two_digit_year f1 \<le> 99
            \<longrightarrow> epochyr sat = l1_two_digit_year f1 + 1900)
       \<and> epoch_year 0 = 2000 \<and> epoch_year 56 = 2056
       \<and> epoch_year 57 = 1957 \<and> epoch_year 99 = 1999"
  using twoline2rv_epochyr[OF assms(2) assms(1)] by (simp add: epoch_year_def)

theorem two_digit_year_resolution_witness:
  "twoline2rv reference_env iss_line1 iss_line2 reference_gravity False = Inr iss_satellite
   \<and> epochyr iss_satellite = 8 + 2000"
  using two_digit_year_resolution[OF parse_iss_line1 twoline2rv_iss] twoline2rv_iss
  by simp

section \<open>Checksums and entity construction\<close>

lemma slice_one: "i < length xs \<Longrightarrow> py_slice i (Suc i) xs = [xs ! i]"
  by (simp add: py_slice_def take_Suc_conv_app_nth[of 0] hd_drop_conv_nth take_Suc)

lemma verify_checksum_bad_head:
  assumes "bad_checksum line"
  shows "verify_checksum (line # lines)
         = Inl (ChecksumError (int (digit_value (line ! 68))) (compute_checksum line) line)"
proof -
  from assms have len: "68 < length line" and dig: "isdigit (line ! 68)"
    and ne: "int (digit_value (line ! 68)) \<noteq> compute_checksum line"
    by (simp_all add: bad_checksum_def)
  have sl: "py_slice 68 69 line = [line ! 68]"
    using slice_one[OF len] by simp
  show ?thesis
    using dig ne by (simp add: sl str_isdigit_def py_int_digit)
qed

lemma verify_checksum_good_head:
  assumes "\<not> bad_checksum line"
  shows "verify_checksum (line # lines) = verify_checksum lines"
proof (cases "68 < length line")
  case True
  have sl: "py_slice 68 69 line = [line ! 68]"
    using slice_one[OF True] by simp
  show ?thesis
    using assms True by (auto simp: sl str_isdigit_def py_int_digit bad_checksum_def)
next
  case False
  then have "py_slice 68 69 line = []"
    by (simp add: py_slice_def)
  then show ?thesis
    by (simp add: str_isdigit_def)
qed

text \<open>
  Claim C3, as amended. \<open>twoline2rv\<close> never computes a checksum. When the 69th character
  of one of two lines is a decimal digit that differs from the checksum computed over
  the first 68 characters of that line, it is \<open>verify_checksum\<close>, applied to the two
  lines, that fails, with a checksum error naming the stored digit, the computed value
  and the first such line.
\<close>

theorem verify_checksum_rejects:
  assumes "bad_checksum line1 \<or> bad_checksum line2"
  shows "verify_checksum [line1, line2]
         = (if bad_checksum line1
            then Inl (ChecksumError (int (digit_value (line1 ! 68))) (compute_checksum line1) line1)
            else Inl (ChecksumError (int (digit_value (line2 ! 68))) (compute_checksum line2) line2))"
  using assms
  by (auto simp: verify_checksum_bad_head verify_checksum_good_head simp del: verify_checksum.simps)

lemma bad_checksum_iss: "bad_checksum iss_line1_bad_checksum"
  by (simp add: bad_checksum_def iss_line1_bad_checksum_def iss_line1_def compute_checksum_def
      py_slice_def checksum_term_def isdigit_def digit_value_def code_of_def)

theorem verify_checksum_rejects_witness:
  "bad_checksum iss_line1_bad_checksum
   \<and> verify_checksum [iss_line1_bad_checksum, iss_line2]
       = Inl (ChecksumError 0 7 iss_line1_bad_checksum)"
proof -
  have "bad_checksum iss_line1_bad_checksum \<or> bad_checksum iss_line2"
    using bad_checksum_iss by simp
  from verify_checksum_rejects[OF this] bad_checksum_iss
  have "verify_checksum [iss_line1_bad_checksum, iss_line2]
        = Inl (ChecksumError (int (digit_value (iss_line1_bad_checksum ! 68)))
                 (compute_checksum iss_line1_bad_checksum) iss_line1_bad_checksum)"
    by simp
  moreover have "int (digit_value (iss_line1_bad_checksum ! 68)) = 0"
    by (simp add: iss_line1_bad_checksum_def iss_line1_def digit_value_def code_of_def)
  moreover have "compute_checksum iss_line1_bad_checksum = 7"
    by (simp add: iss_line1_bad_checksum_def iss_line1_def compute_checksum_def
      py_slice_def checksum_term_def isdigit_def digit_value_def code_of_def)
  ultimately show ?thesis
    using bad_checksum_iss by simp
qed

lemma parse_iss_line1_bad_checksum:
  "parse_line1 (rstrip iss_line1_bad_checksum) = parse_line1 (rstrip iss_line1)"
  by (simp add: iss_line1_bad_checksum_def iss_line1_def parser_defs literal_defs)

text \<open>
  Claim C3 as stated fails: the reference line 1 with the checksum digit 0 in place of 7
  builds the same entity as the reference lines.
\<close>

theorem twoline2rv_ignores_checksum_counterexample:
  "bad_checksum iss_line1_bad_checksum
   \<and> twoline2rv reference_env iss_line1_bad_checksum iss_line2 reference_gravity False
       = Inr iss_satellite"
proof -
  have "twoline2rv reference_env iss_line1_bad_checksum iss_line2 reference_gravity False
        = twoline2rv reference_env iss_line1 iss_line2 reference_gravity False"
    by (simp add: twoline2rv_def parse_iss_line1_bad_checksum)
  then show ?thesis
    using bad_checksum_iss twoline2rv_iss by simp
qed

section \<open>Format errors\<close>












section \<open>Derived geometry\<close>

lemma py_pow_positive: "0 < x \<Longrightarrow> py_pow x y = Inr (x powr y)"
  by (simp add: py_pow_def)

lemma py_pow_two_thirds:
  "py_pow x (- 2 / 3) = Inr v \<Longrightarrow> 0 < x \<and> v = x powr (- 2 / 3)"
proof -
  have "real_of_int \<lfloor>- 2 / 3 :: real\<rfloor> \<noteq> - 2 / 3"
    by simp
  then show "py_pow x (- 2 / 3) = Inr v \<Longrightarrow> 0 < x \<and> v = x powr (- 2 / 3)"
    by (auto simp: py_pow_def split: if_splits)
qed

text \<open>
  Claim C9. Every entity that the constructor returns for a mean motion \<open>no_kozai\<close>, an
  eccentricity \<open>e\<close> and a gravity set with scale factor \<open>tumin\<close> has the derived fields
  \<open>a = (no_kozai * tumin) powr (- 2 / 3)\<close>, \<open>alta = a * (1 + e) - 1\<close> and
  \<open>altp = a * (1 - e) - 1\<close>; and the constructor returns one whenever
  \<open>no_kozai * tumin\<close> is positive.
\<close>

theorem derived_geometry:
  "(Satellite_init env wc sn ep b i nd e ar m nk ndt nddt c d el rv am = Inr sat
      \<longrightarrow> no_kozai sat = nk \<and> ecco sat = e \<and> whichconst sat = wc
          \<and> a_axis sat = (nk * tumin wc) powr (- 2 / 3)
          \<and> alta sat = a_axis sat * (1 + e) - 1
          \<and> altp sat = a_axis sat * (1 - e) - 1)
   \<and> (0 < nk * tumin wc
      \<longrightarrow> (\<exists>s. Satellite_init env wc sn ep b i nd e ar m nk ndt nddt c d el rv am = Inr s))"
proof (rule conjI; rule impI)
  assume "0 < nk * tumin wc"
  then show "\<exists>s. Satellite_init env wc sn ep b i nd e ar m nk ndt nddt c d el rv am = Inr s"
    by (simp add: Satellite_init_def py_pow_positive and_then_def Let_def)
next
  assume init: "Satellite_init env wc sn ep b i nd e ar m nk ndt nddt c d el rv am = Inr sat"
  then obtain v where v: "py_pow (nk * tumin wc) (- 2 / 3) = Inr v"
    by (auto simp: Satellite_init_def and_then_def Let_def split: sum.splits)
  from py_pow_two_thirds[OF v] have "v = (nk * tumin wc) powr (- 2 / 3)"
    by simp
  with init v show "no_kozai sat = nk \<and> ecco sat = e \<and> whichconst sat = wc
          \<and> a_axis sat = (nk * tumin wc) powr (- 2 / 3)
          \<and> alta sat = a_axis sat * (1 + e) - 1
          \<and> altp sat = a_axis sat * (1 - e) - 1"
    by (auto simp: Satellite_init_def and_then_def Let_def)
qed

theorem derived_geometry_witness:
  "\<exists>sat. Satellite_init reference_env reference_gravity 25544 (epoch iss_satellite) 0 1 2
            (1 / 1000) 3 4 (1 / 16) 0 0 ''U'' None 1 1 False = Inr sat
         \<and> a_axis sat = (1 / 16 * (1344684 / 100000)) powr (- 2 / 3)
         \<and> alta sat = a_axis sat * (1 + 1 / 1000) - 1
         \<and> altp sat = a_axis sat * (1 - 1 / 1000) - 1"
proof -
  have pos: "0 < (1 / 16 :: real) * tumin reference_gravity"
    by (simp add: reference_gravity_def)
  let ?init = "Satellite_init reference_env reference_gravity 25544 (epoch iss_satellite) 0 1 2
            (1 / 1000) 3 4 (1 / 16) 0 0 ''U'' None 1 1 False"
  from derived_geometry[of reference_env reference_gravity 25544 "epoch iss_satellite" 0 1 2
          "1 / 1000" 3 4 "1 / 16" 0 0 "''U''" None 1 1 False] pos
  obtain s where s: "?init = Inr s"
    by blast
  from derived_geometry[of reference_env reference_gravity 25544 "epoch iss_satellite" 0 1 2
          "1 / 1000" 3 4 "1 / 16" 0 0 "''U''" None 1 1 False s] s
  show ?thesis
    by (auto simp: reference_gravity_def)
qed

section \<open>Eccentricity field\<close>

lemma digit_groups_all_digits: "list_all isdigit ds \<Longrightarrow> digit_groups b ds = (b \<or> ds \<noteq> [])"
  by (induction ds arbitrary: b) auto

lemma digits_ok_all_digits: "list_all isdigit ds \<Longrightarrow> ds \<noteq> [] \<Longrightarrow> digits_ok ds"
  by (simp add: digits_ok_def digit_groups_all_digits)

lemma digit_not_mark:
  "isdigit c \<Longrightarrow> \<not> is_exp_mark c \<and> \<not> is_period c \<and> lower c = c"
  by (auto simp: isdigit_def is_exp_mark_def is_period_def lower_def code_of_def)

lemma takeWhile_digits:
  assumes "list_all isdigit ds"
  shows "takeWhile (\<lambda>c. \<not> is_exp_mark c) ds = ds" and "dropWhile (\<lambda>c. \<not> is_exp_mark c) ds = []"
    and "takeWhile (\<lambda>c. \<not> is_period c) ds = ds" and "filter isdigit ds = ds"
  using assms digit_not_mark by (induction ds) auto

lemma rstrip_digits_end: 
  assumes "list_all isdigit ds" and "ds \<noteq> []"
  shows "rstrip (xs @ ds) = xs @ ds"
proof -
  from assms obtain ys d where ds: "ds = ys @ [d]" and "isdigit d"
    by (cases ds rule: rev_cases) auto
  then have "\<not> isspace d"
    by (simp add: not_isspace_digit)
  then show ?thesis
    by (simp add: rstrip_def ds)
qed

lemma py_float_plain:
  assumes "strip s = s" and "split_sign s = (False, s)"
    and "map lower s \<notin> set [''inf'', ''infinity'', ''nan'']"
    and "takeWhile (\<lambda>c. \<not> is_exp_mark c) s = s" and "number_ok s"
  shows "py_float s = Inr (number_val s)"
proof -
  have "takeWhile (\<lambda>c. \<not> is_exp_mark c) s @ dropWhile (\<lambda>c. \<not> is_exp_mark c) s = s"
    by simp
  then have dw: "dropWhile (\<lambda>c. \<not> is_exp_mark c) s = []"
    unfolding assms(4) by simp
  show ?thesis
    unfolding py_float_def assms(1) assms(2)
    using assms(3,5)
    by (simp add: assms(4) dw exponent_ok_def exponent_val_def pow10_def del: set_simps)
qed

lemma py_float_implied_fraction:
  assumes "list_all isdigit ds" and "ds \<noteq> []"
  shows "py_float (''0.'' @ ds) = Inr (real (digits_val ds) / 10 ^ length ds)"
proof -
  have st: "strip (''0.'' @ ds) = ''0.'' @ ds"
    using rstrip_digits_end[OF assms, of "''0.''"]
    by (simp add: strip_def lstrip_def isspace_def code_of_def)
  have sg: "split_sign (''0.'' @ ds) = (False, ''0.'' @ ds)"
    by (simp add: split_sign_def)
  have nf: "map lower (''0.'' @ ds) \<notin> set [''inf'', ''infinity'', ''nan'']"
    by (simp add: lower_def code_of_def)
  have tw: "takeWhile (\<lambda>c. \<not> is_exp_mark c) (''0.'' @ ds) = ''0.'' @ ds"
    using takeWhile_digits(1)[OF assms(1)] by (simp add: is_exp_mark_def)
  have ok: "number_ok (''0.'' @ ds)"
    using assms by (simp add: number_ok_def is_period_def digits_ok_all_digits)
       (simp add: digits_ok_def isdigit_def code_of_def)
  have val: "number_val (''0.'' @ ds) = real (digits_val ds) / 10 ^ length ds"
    using takeWhile_digits(4)[OF assms(1)]
    by (simp add: number_val_def is_period_def digit_count_def)
       (simp add: digits_val_def isdigit_def code_of_def digit_value_def)
  show ?thesis
    using py_float_plain[OF st sg nf tw ok] val by simp
qed

lemma replace_space_zero_digits:
  "list_all (\<lambda>c. isdigit c \<or> c = CHR '' '') s \<Longrightarrow> list_all isdigit (replace_space_zero s)"
  by (induction s) (auto simp: replace_space_zero_def isdigit_def code_of_def)

lemma parse_line2_ecco:
  assumes "parse_line2 saved_satnum line = Inr f2"
  shows "py_float (''0.'' @ replace_space_zero (py_slice 26 33 line)) = Inr (l2_ecco f2)"
    and "length (py_slice 26 33 line) = 7"
proof -
  from assms have ok: "line2_ok line"
    by (auto simp: parse_line2_def split: if_splits)
  then show "length (py_slice 26 33 line) = 7"
    by (auto simp: line2_ok_def py_slice_def)
  from assms ok show "py_float (''0.'' @ replace_space_zero (py_slice 26 33 line)) = Inr (l2_ecco f2)"
    by (auto simp: parse_line2_def and_then_def split: sum.splits if_splits)
qed

text \<open>
  Claim C10. For every line 2 that the parser accepts, the eccentricity is decoded from
  the field at columns 27 to 33 with every space replaced by the digit 0 and \<open>0.\<close> put in
  front: a field of digits and spaces has the value of its seven digits, spaces counted
  as zeros, divided by \<open>10 ^ 7\<close>, and a field of seven spaces decodes to 0 and raises no
  error.
\<close>

theorem eccentricity_spaces_are_zeros:
  assumes "parse_line2 saved_satnum line = Inr f2"
  shows "py_float (''0.'' @ replace_space_zero (py_slice 26 33 line)) = Inr (l2_ecco f2)
       \<and> (list_all (\<lambda>c. isdigit c \<or> c = CHR '' '') (py_slice 26 33 line)
            \<longrightarrow> l2_ecco f2
                 = real (digits_val (replace_space_zero (py_slice 26 33 line))) / 10 ^ 7)
       \<and> (py_slice 26 33 line = replicate 7 CHR '' '' \<longrightarrow> l2_ecco f2 = 0)
       \<and> py_float (''0.'' @ replace_space_zero (replicate 7 CHR '' '')) = Inr 0"
proof -
  let ?field = "py_slice 26 33 line"
  note ecc = parse_line2_ecco[OF assms]
  have general: "l2_ecco f2 = real (digits_val (replace_space_zero ?field)) / 10 ^ 7"
    if "list_all (\<lambda>c. isdigit c \<or> c = CHR '' '') ?field"
  proof -
    have "list_all isdigit (replace_space_zero ?field)"
      using that by (rule replace_space_zero_digits)
    moreover have "length (replace_space_zero ?field) = 7"
      using ecc(2) by (simp add: replace_space_zero_def)
    moreover from this have "replace_space_zero ?field \<noteq> []"
      by auto
    ultimately have "py_float (''0.'' @ replace_space_zero ?field)
                     = Inr (real (digits_val (replace_space_zero ?field)) / 10 ^ 7)"
      using py_float_implied_fraction[of "replace_space_zero ?field"] by metis
    with ecc(1) show ?thesis by simp
  qed
  have zeros: "digits_val (replace_space_zero (replicate 7 CHR '' '')) = 0"
    by (simp add: replace_space_zero_def digits_val_def isdigit_def code_of_def digit_value_def
        numeral_eq_Suc)
  have blank: "l2_ecco f2 = 0" if "?field = replicate 7 CHR '' ''"
    using general that zeros by (simp add: list_all_iff)
  have "py_float (''0.'' @ replace_space_zero (replicate 7 CHR '' '')) = Inr 0"
    using py_float_implied_fraction[of "replace_space_zero (replicate 7 CHR '' '')"] zeros
    by (simp add: replace_space_zero_def isdigit_def code_of_def list_all_iff)
  with ecc(1) general blank show ?thesis
    by simp
qed

lemma parse_line2_blank_ecc:
  "parse_line2 25544 (rstrip line2_blank_ecc) =
     Inr \<lparr> l2_satnum = 25544, l2_inclo = 516416 / 10000, l2_nodeo = 2474627 / 10000,
           l2_ecco = 0, l2_argpo = 1305360 / 10000, l2_mo = 3250288 / 10000,
           l2_no_kozai = 1572125391 / 100000000, l2_revnum = 56353 \<rparr>"
  by (simp add: line2_blank_ecc_def parser_defs literal_defs)

theorem eccentricity_spaces_are_zeros_witness:
  "py_slice 26 33 (rstrip line2_blank_ecc) = replicate 7 CHR '' ''
   \<and> (\<exists>f2. parse_line2 25544 (rstrip line2_blank_ecc) = Inr f2 \<and> l2_ecco f2 = 0)"
proof -
  have field: "py_slice 26 33 (rstrip line2_blank_ecc) = replicate 7 CHR '' ''"
    by (simp add: line2_blank_ecc_def py_slice_def rstrip_def isspace_def code_of_def
        numeral_eq_Suc)
  from eccentricity_spaces_are_zeros[OF parse_line2_blank_ecc] field
  have "l2_ecco \<lparr> l2_satnum = 25544, l2_inclo = 516416 / 10000, l2_nodeo = 2474627 / 10000,
           l2_ecco = 0, l2_argpo = 1305360 / 10000, l2_mo = 3250288 / 10000,
           l2_no_kozai = 1572125391 / 100000000, l2_revnum = 56353 \<rparr> = 0"
    by simp
  with field parse_line2_blank_ecc show ?thesis
    by simp
qed

section \<open>Evaluating the formatter on the reference entity\<close>

lemma digits_of_small: "n < 10 \<Longrightarrow> digits_of n = [digit_char n]"
  by (subst digits_of.simps) simp

lemma digits_of_large:
  "10 \<le> n \<Longrightarrow> digits_of n = digits_of (n div 10) @ [digit_char (n mod 10)]"
  by (subst digits_of.simps) simp

lemma digit_char_literals:
  "digit_char 0 = CHR ''0''" "digit_char 1 = CHR ''1''" "digit_char 2 = CHR ''2''"
  "digit_char 3 = CHR ''3''" "digit_char 4 = CHR ''4''" "digit_char 5 = CHR ''5''"
  "digit_char 6 = CHR ''6''" "digit_char 7 = CHR ''7''" "digit_char 8 = CHR ''8''"
  "digit_char 9 = CHR ''9''" "digit_char (Suc 0) = CHR ''1''"
  by (simp_all add: digit_char_def char_eq_code code_of_def)

lemma replicate_unfold: "replicate (numeral k) x = x # replicate (pred_numeral k) x"
  by (simp add: numeral_eq_Suc)

lemmas format_defs = replicate_unfold fmt_f_def fmt_right_f_def fmt_right_zero_f_def fmt_sign_aware_f_def
  fmt_zero_d_def fmt_right_d_def round_half_even_def rjust_def py_str_def
  digits_of_small digits_of_large digit_char_literals Let_def

lemma powr_minus_nat: "10 powr (- real n) = 1 / 10 ^ n"
  by (simp add: powr_minus powr_realpow divide_simps)

lemma trunc_log10_negative:
  assumes "1 / 10 ^ Suc k < x" and "x < 1 / 10 ^ k"
  shows "py_trunc (log 10 x) = - int k" and "of_int (py_trunc (log 10 x)) \<noteq> log 10 x"
    and "10 powr (log 10 x - of_int (py_trunc (log 10 x))) = x * 10 ^ k"
proof -
  have pos: "0 < x"
    using assms(1) by (meson less_trans zero_less_divide_1_iff zero_less_numeral zero_less_power)
  have lo: "- real (Suc k) < log 10 x"
    using assms(1) unfolding less_log_iff[OF _ pos, of 10, simplified] powr_minus_nat .
  have hi: "log 10 x < - real k"
    using assms(2) unfolding log_less_iff[OF _ pos, of 10, simplified] powr_minus_nat .
  have neg: "log 10 x < 0"
    using hi by linarith
  have "\<lceil>log 10 x\<rceil> = - int k"
    using lo hi by (simp add: ceiling_eq_iff)
  with neg show t: "py_trunc (log 10 x) = - int k"
    by (simp add: py_trunc_def)
  show "of_int (py_trunc (log 10 x)) \<noteq> log 10 x"
    using hi t by simp
  show "10 powr (log 10 x - of_int (py_trunc (log 10 x))) = x * 10 ^ k"
    using pos by (simp add: t powr_add powr_realpow)
qed

lemma trunc_log10_positive:
  assumes "10 ^ k \<le> x" and "x < 10 ^ Suc k"
  shows "py_trunc (log 10 x) = int k"
proof -
  have pos: "0 < x"
    using assms(1) by (meson less_le_trans zero_less_numeral zero_less_power)
  have lo: "real k \<le> log 10 x"
    using assms(1) pos by (simp add: le_log_iff powr_realpow)
  have hi: "log 10 x < real (Suc k)"
    using assms(2) pos by (simp add: log_less_iff powr_realpow del: of_nat_Suc power_Suc)
  have "\<lfloor>log 10 x\<rfloor> = int k"
    using lo hi by (simp add: floor_eq_iff)
  with lo show ?thesis
    by (simp add: py_trunc_def)
qed

lemma xpdotp_nonzero: "xpdotp \<noteq> 0"
  using xpdotp_pos by simp

lemma deg2rad_nonzero: "deg2rad \<noteq> 0"
  by (simp add: deg2rad_def)

lemma set_item_inside:
  "i < length l \<Longrightarrow> set_item i v l = Inr (take i l @ v # drop (Suc i) l)"
  by (simp add: set_item_def upd_conv_take_nth_drop)

lemma iss_text_fields:
  "fmt_zero_d 5 (satnum iss_satellite) = ''25544''"
  "classification iss_satellite = ''U''"
  "intldesg iss_satellite = Some ''98067A  ''"
  "last_two (py_str (epochyr iss_satellite)) = ''08''"
  "fmt_right_d 4 (elnum iss_satellite) = '' 292''"
  "fmt_right_d 5 (revnum iss_satellite) = ''56353''"
  by (simp_all add: iss_satellite_def format_defs last_two_def)

lemma iss_epochdays_field:
  "fmt_right_zero_f 12 8 (epochdays iss_satellite) = ''264.51782528''"
  by (simp add: iss_satellite_def format_defs)

lemma iss_ndot_min: "ndot iss_satellite * (xpdotp * 1440) = - (2182 / 100000000)"
  using xpdotp_nonzero by (simp add: iss_satellite_def)

lemma iss_ndot_field:
  "after_last_period (fmt_sign_aware_f 8 8 (- (2182 / 100000000))) = ''00002182''"
  by (simp add: format_defs after_last_period_def is_period_def)

lemma iss_nddot_field: "put_nddot iss_satellite l = Inr (set_slice 45 52 ''00000-0'' l)"
  by (simp add: put_nddot_def iss_satellite_def)


lemma put_bstar_small:
  assumes "1 / 10 ^ Suc k < \<bar>bstar satrec\<bar>" and "\<bar>bstar satrec\<bar> < 1 / 10 ^ k"
    and "53 < length l"
  shows "put_bstar satrec l
         = Inr (set_slice 59 61 (if k = 0 then ''-'' @ py_str 0 else py_str (- int k))
                 (set_slice 54 59 (drop 2 (fmt_right_f 1 5 (\<bar>bstar satrec\<bar> * 10 ^ k)))
                   (take 53 l @ (if bstar satrec < 0 then ''-'' else '' '') # drop 54 l)))"
proof -
  note lg = trunc_log10_negative[OF assms(1,2)]
  have pos: "0 < \<bar>bstar satrec\<bar>"
    using assms(1) by (meson less_trans zero_less_divide_1_iff zero_less_numeral zero_less_power)
  then have nz: "bstar satrec \<noteq> 0"
    by simp
  have f: "10 powr (log 10 \<bar>bstar satrec\<bar> + real k) = \<bar>bstar satrec\<bar> * 10 ^ k"
    using lg(3) unfolding lg(1) by simp
  have n: "- real k \<noteq> log 10 \<bar>bstar satrec\<bar>"
    using lg(2) unfolding lg(1) by simp
  show ?thesis
    using nz pos n assms(3)
    by (simp add: put_bstar_def py_log10_def and_then_def Let_def lg(1) f set_item_inside)
qed

lemma iss_bstar_field:
  assumes "53 < length l"
  shows "put_bstar iss_satellite l
         = Inr (set_slice 59 61 ''-4'' (set_slice 54 59 ''11606''
                  (take 53 l @ ''-'' # drop 54 l)))"
proof -
  have b: "bstar iss_satellite = - (11606 / 10 ^ 9)"
    by (simp add: iss_satellite_def)
  have s: "drop 2 (fmt_right_f 1 5 (\<bar>bstar iss_satellite\<bar> * 10 ^ 4)) = ''11606''"
    unfolding b by (simp add: format_defs)
  have p: "py_str (- int 4) = ''-4''"
    by (simp add: format_defs)
  have "put_bstar iss_satellite l
        = Inr (set_slice 59 61 (if (4::nat) = 0 then ''-'' @ py_str 0 else py_str (- int 4))
                 (set_slice 54 59 (drop 2 (fmt_right_f 1 5 (\<bar>bstar iss_satellite\<bar> * 10 ^ 4)))
                   (take 53 l @ (if bstar iss_satellite < 0 then ''-'' else '' '') # drop 54 l)))"
    by (rule put_bstar_small[OF _ _ assms]) (simp_all add: b)
  then show ?thesis
    unfolding s p by (simp add: b)
qed

lemma and_then_Inr: "and_then (Inr v) f = f v"
  by (simp add: and_then_def)

lemma and_then_Inl: "and_then (Inl e) f = Inl e"
  by (simp add: and_then_def)

lemma and_then_weak_cong: "r = r' \<Longrightarrow> and_then r f = and_then r' f"
  by simp

lemma py_str_literals:
  "py_str 0 = ''0''" "py_str 1 = ''1''" "py_str 2 = ''2''" "py_str 3 = ''3''"
  "py_str 4 = ''4''" "py_str 5 = ''5''" "py_str 6 = ''6''" "py_str 7 = ''7''"
  "py_str 8 = ''8''" "py_str 9 = ''9''"
  by (simp_all add: py_str_def digits_of_small digit_char_literals)

lemmas assemble_defs = and_then_Inr and_then_Inl set_item_inside set_slice_def join_def Let_def
  replicate_unfold py_str_literals

lemmas checksum_defs = compute_checksum_def py_slice_def checksum_term_def isdigit_def
  digit_value_def code_of_def

lemma rv2twoline_line1_iss: "rv2twoline_line1 iss_satellite = Inr (iss_line1 @ ''  '')"
proof -
  define ndot_min where "ndot_min = ndot iss_satellite * (xpdotp * 1440)"
  have v: "ndot_min = - (2182 / 100000000)"
    unfolding ndot_min_def by (rule iss_ndot_min)
  have neg: "ndot_min < 0"
    unfolding v by simp
  have field: "after_last_period (fmt_sign_aware_f 8 8 ndot_min) = ''00002182''"
    unfolding v by (rule iss_ndot_field)
  show ?thesis
    unfolding rv2twoline_line1_def ndot_min_def[symmetric]
    by (simp add: assemble_defs iss_text_fields iss_epochdays_field neg field
        iss_nddot_field iss_bstar_field checksum_defs iss_line1_def
        cong: let_weak_cong and_then_weak_cong)
qed

lemma rv2twoline_line2_iss: "rv2twoline_line2 iss_satellite = Inr iss_line2"
proof -
  define incl where "incl = inclo iss_satellite / deg2rad"
  define node where "node = nodeo iss_satellite / deg2rad"
  define argp where "argp = argpo iss_satellite / deg2rad"
  define manom where "manom = mo iss_satellite / deg2rad"
  define mmot where "mmot = no_kozai iss_satellite * xpdotp"
  have v: "incl = 516416 / 10000" "node = 2474627 / 10000" "argp = 1305360 / 10000"
    "manom = 3250288 / 10000" "mmot = 1572125391 / 100000000"
    unfolding incl_def node_def argp_def manom_def mmot_def
    using deg2rad_nonzero xpdotp_nonzero by (simp_all add: iss_satellite_def)
  have lg: "py_log10 incl = Inr (log 10 incl)"
    unfolding v by (simp add: py_log10_def)
  have tr: "py_trunc (log 10 incl) = 1"
    unfolding v using trunc_log10_positive[of 1 "516416 / 10000"] by simp
  have fields: "fmt_right_f 7 4 incl = ''51.6416''" "fmt_right_f 8 4 node = ''247.4627''"
    "fmt_right_f 8 4 argp = ''130.5360''" "fmt_right_f 8 4 manom = ''325.0288''"
    "fmt_right_f 11 8 mmot = ''15.72125391''"
    "drop 2 (fmt_right_f 8 7 (ecco iss_satellite)) = ''0006703''"
    unfolding v by (simp_all add: format_defs iss_satellite_def)
  show ?thesis
    unfolding rv2twoline_line2_def incl_def[symmetric] node_def[symmetric]
      argp_def[symmetric] manom_def[symmetric] mmot_def[symmetric]
    by (simp add: assemble_defs iss_text_fields lg tr fields checksum_defs iss_line2_def
        cong: let_weak_cong and_then_weak_cong)
qed

lemma rv2twoline_iss:
  "rv2twoline iss_satellite = Inr (iss_line1 @ ''  '', iss_line2)"
  by (simp add: rv2twoline_def rv2twoline_line1_iss rv2twoline_line2_iss and_then_Inr)

text \<open>
  Claim C4 fails on the reference entity. The parser reads the eight characters at the
  indices 9 to 16 as the designator; the formatter assigns them to the six slots
  \<^verbatim>\<open>[9:15]\<close>, which lengthens the list of 69 slots to 71, and line 1 comes out with two
  blanks after the checksum digit.
\<close>

theorem rv2twoline_line1_too_long:
  "twoline2rv reference_env iss_line1 iss_line2 reference_gravity False = Inr iss_satellite
   \<and> rv2twoline iss_satellite = Inr (iss_line1 @ ''  '', iss_line2)
   \<and> length (iss_line1 @ ''  '') = 71 \<and> length iss_line2 = 69"
  by (simp add: twoline2rv_iss rv2twoline_iss) (simp add: iss_line1_def iss_line2_def)

section \<open>Decimal digits\<close>

lemma digits_of_all_digits: "list_all isdigit (digits_of n)"
proof (induction n rule: digits_of.induct)
  case (1 n)
  show ?case
  proof (cases "n < 10")
    case True
    then show ?thesis by (simp add: digits_of_small isdigit_digit_char)
  next
    case False
    with 1 show ?thesis
      by (simp add: digits_of_large isdigit_digit_char)
  qed
qed

lemma digits_of_nonempty: "digits_of n \<noteq> []"
  by (subst digits_of.simps) simp

lemma digits_val_snoc:
  "isdigit c \<Longrightarrow> digits_val (s @ [c]) = 10 * digits_val s + digit_value c"
  by (simp add: digits_val_def)

lemma digits_val_digits_of: "digits_val (digits_of n) = n"
proof (induction n rule: digits_of.induct)
  case (1 n)
  show ?case
  proof (cases "n < 10")
    case True
    then show ?thesis
      by (simp add: digits_of_small digits_val_def isdigit_digit_char digit_value_digit_char)
  next
    case False
    with 1 show ?thesis
      by (simp add: digits_of_large digits_val_snoc isdigit_digit_char digit_value_digit_char)
  qed
qed

lemma length_digits_of: "n < 10 ^ k \<Longrightarrow> 0 < k \<Longrightarrow> length (digits_of n) \<le> k"
proof (induction n arbitrary: k rule: digits_of.induct)
  case (1 n)
  show ?case
  proof (cases "n < 10")
    case True
    with 1(3) show ?thesis by (simp add: digits_of_small)
  next
    case False
    then obtain j where k: "k = Suc j"
      using 1(3) by (cases k) auto
    with False 1(2) have j: "0 < j"
      by (cases j) auto
    from 1(2) k have "n div 10 < 10 ^ j"
      by (simp add: less_mult_imp_div_less mult.commute)
    from 1(1)[OF False this j] show ?thesis
      using False k by (simp add: digits_of_large)
  qed
qed

lemma digits_val_zero_fill:
  "digits_val (replicate k CHR ''0'' @ s) = digits_val s"
proof -
  have z: "isdigit CHR ''0''" "digit_value CHR ''0'' = 0"
    by (simp_all add: isdigit_def digit_value_def code_of_def)
  have "foldl (\<lambda>acc c. 10 * acc + digit_value c) 0 (replicate k CHR ''0'') = 0"
    by (induction k) (simp_all add: z)
  then show ?thesis
    by (simp add: digits_val_def z)
qed

lemma all_digits_zero_fill: "list_all isdigit s \<Longrightarrow> list_all isdigit (rjust k CHR ''0'' s)"
  by (auto simp: rjust_def list_all_iff isdigit_def code_of_def)

lemma length_rjust: "length s \<le> k \<Longrightarrow> length (rjust k c s) = k"
  by (simp add: rjust_def)

section \<open>Fixed-point fields\<close>

lemma round_half_even_nat: "round_half_even (real n) = int n"
  by (simp add: round_half_even_def)

lemma fmt_f_fixed_point: "fmt_f p (real n / 10 ^ p) = fixed_point p n"
proof -
  have "\<bar>real n / 10 ^ p\<bar> * 10 ^ p = real n"
    by simp
  moreover have "\<not> real n / 10 ^ p < 0"
    by (simp add: not_less)
  ultimately show ?thesis
    unfolding fmt_f_def fixed_point_def Let_def
    by (simp add: round_half_even_nat del: abs_divide)
qed

section \<open>Reading canonical fields\<close>

lemma isspace_blank: "isspace CHR '' ''"
  by (simp add: isspace_def code_of_def)

lemma strip_padded:
  assumes "t \<noteq> []" and "\<not> isspace (hd t)" and "\<not> isspace (last t)"
  shows "strip (replicate k CHR '' '' @ t) = t"
proof -
  from assms(1) obtain ys z where t: "t = ys @ [z]"
    by (cases t rule: rev_cases) auto
  with assms(3) have z: "\<not> isspace z" by simp
  have r: "rstrip (replicate k CHR '' '' @ t) = replicate k CHR '' '' @ t"
    using z by (simp add: rstrip_def t)
  have "dropWhile isspace (replicate k CHR '' '' @ t) = dropWhile isspace t"
    by (induction k) (simp_all add: isspace_blank)
  also have "\<dots> = t"
    using assms(1,2) by (cases t) auto
  finally show ?thesis
    by (simp add: strip_def lstrip_def r)
qed

lemma digits_ends:
  assumes "list_all isdigit t" and "t \<noteq> []"
  shows "isdigit (hd t)" and "isdigit (last t)"
  using assms by (auto simp: list_all_iff)

lemma split_sign_digit: "t \<noteq> [] \<Longrightarrow> isdigit (hd t) \<Longrightarrow> split_sign t = (False, t)"
  using digit_not_sign by (cases t) (auto simp: split_sign_def)

lemma py_int_stripped:
  assumes "strip s = t" and "list_all isdigit t" and "t \<noteq> []"
  shows "py_int s = Inr (int (digits_val t))"
  using assms digits_ends(1)[OF assms(2,3)]
  by (simp add: py_int_def split_sign_digit digits_ok_all_digits)

lemma py_int_padded_digits:
  "py_int (replicate k CHR '' '' @ digits_of n) = Inr (int n)"
proof -
  note d = digits_of_all_digits[of n] digits_of_nonempty[of n]
  have "strip (replicate k CHR '' '' @ digits_of n) = digits_of n"
    using digits_ends[OF d] by (intro strip_padded d(2)) (simp_all add: not_isspace_digit)
  from py_int_stripped[OF this d] show ?thesis
    by (simp add: digits_val_digits_of)
qed

lemma py_int_zero_filled:
  "py_int (rjust k CHR ''0'' (digits_of n)) = Inr (int n)"
proof -
  let ?t = "rjust k CHR ''0'' (digits_of n)"
  have d: "list_all isdigit ?t" "?t \<noteq> []"
    using all_digits_zero_fill[OF digits_of_all_digits] digits_of_nonempty
    by (simp_all add: rjust_def)
  have "strip (replicate 0 CHR '' '' @ ?t) = ?t"
    using digits_ends[OF d] by (intro strip_padded d(2)) (simp_all add: not_isspace_digit)
  then have "strip ?t = ?t" by simp
  from py_int_stripped[OF this d] show ?thesis
    by (simp add: rjust_def digits_val_zero_fill digits_val_digits_of)
qed

lemma py_float_stripped:
  assumes "strip s = t" and "split_sign t = (False, t)"
    and "map lower t \<notin> set [''inf'', ''infinity'', ''nan'']"
    and "takeWhile (\<lambda>c. \<not> is_exp_mark c) t = t" and "number_ok t"
  shows "py_float s = Inr (number_val t)"
proof -
  have "takeWhile (\<lambda>c. \<not> is_exp_mark c) t @ dropWhile (\<lambda>c. \<not> is_exp_mark c) t = t"
    by simp
  then have dw: "dropWhile (\<lambda>c. \<not> is_exp_mark c) t = []"
    unfolding assms(4) by simp
  show ?thesis
    unfolding py_float_def assms(1) assms(2)
    using assms(3,5)
    by (simp add: assms(4) dw exponent_ok_def exponent_val_def pow10_def del: set_simps)
qed

lemma takeWhile_digits_then:
  "list_all isdigit ds \<Longrightarrow> takeWhile (\<lambda>c. \<not> is_period c) (ds @ CHR ''.'' # rest) = ds"
  "list_all isdigit ds \<Longrightarrow> dropWhile (\<lambda>c. \<not> is_period c) (ds @ CHR ''.'' # rest) = CHR ''.'' # rest"
  using digit_not_mark by (induction ds) (auto simp: is_period_def)

lemma not_nonfinite_digit:
  assumes "t \<noteq> []" and "isdigit (hd t)"
  shows "map lower t \<notin> set [''inf'', ''infinity'', ''nan'']"
proof -
  from assms obtain c cs where t: "t = c # cs" and c: "isdigit c"
    by (cases t) auto
  from c have "lower c = c" "c \<noteq> CHR ''i''" "c \<noteq> CHR ''n''"
    by (auto simp: isdigit_def lower_def code_of_def)
  then show ?thesis
    by (simp add: t)
qed

lemma py_float_decimal:
  assumes "strip s = ip @ CHR ''.'' # fp" and "list_all isdigit ip" and "ip \<noteq> []"
    and "list_all isdigit fp" and "fp \<noteq> []"
  shows "py_float s = Inr (real (digits_val ip) + real (digits_val fp) / 10 ^ length fp)"
proof -
  let ?t = "ip @ CHR ''.'' # fp"
  have hd: "?t \<noteq> []" "isdigit (hd ?t)"
    using digits_ends(1)[OF assms(2,3)] assms(3) by simp_all
  have sg: "split_sign ?t = (False, ?t)"
    by (rule split_sign_digit[OF hd])
  have nf: "map lower ?t \<notin> set [''inf'', ''infinity'', ''nan'']"
    by (rule not_nonfinite_digit[OF hd])
  have tw: "takeWhile (\<lambda>c. \<not> is_exp_mark c) ?t = ?t"
    using assms(2,4) digit_not_mark by (auto simp: list_all_iff is_exp_mark_def)
  have ok: "number_ok ?t"
    using assms(2-5)
    by (simp add: number_ok_def Let_def takeWhile_digits_then digits_ok_all_digits)
  have val: "number_val ?t = real (digits_val ip) + real (digits_val fp) / 10 ^ length fp"
    using assms(2,4) takeWhile_digits(4)[OF assms(4)]
    by (simp add: number_val_def Let_def takeWhile_digits_then digit_count_def)
  from py_float_stripped[OF assms(1) sg nf tw ok] val show ?thesis
    by simp
qed

lemma fixed_point_parts:
  assumes "0 < p"
  shows "list_all isdigit (rjust p CHR ''0'' (digits_of (n mod 10 ^ p)))"
    and "length (rjust p CHR ''0'' (digits_of (n mod 10 ^ p))) = p"
    and "digits_val (rjust p CHR ''0'' (digits_of (n mod 10 ^ p))) = n mod 10 ^ p"
proof -
  show "list_all isdigit (rjust p CHR ''0'' (digits_of (n mod 10 ^ p)))"
    by (rule all_digits_zero_fill[OF digits_of_all_digits])
  have "n mod 10 ^ p < 10 ^ p" by simp
  from length_digits_of[OF this assms]
  show "length (rjust p CHR ''0'' (digits_of (n mod 10 ^ p))) = p"
    by (rule length_rjust)
  show "digits_val (rjust p CHR ''0'' (digits_of (n mod 10 ^ p))) = n mod 10 ^ p"
    by (simp add: rjust_def digits_val_zero_fill digits_val_digits_of)
qed

lemma py_float_fixed_point:
  assumes "0 < p"
  shows "py_float (replicate k CHR '' '' @ fixed_point p n) = Inr (real n / 10 ^ p)"
proof -
  let ?ip = "digits_of (n div 10 ^ p)" and ?fp = "rjust p CHR ''0'' (digits_of (n mod 10 ^ p))"
  note fp = fixed_point_parts[OF assms, of n]
  have fpne: "?fp \<noteq> []"
    using fp(2) assms by auto
  have t: "fixed_point p n = ?ip @ CHR ''.'' # ?fp"
    by (simp add: fixed_point_def)
  have "strip (replicate k CHR '' '' @ fixed_point p n) = fixed_point p n"
  proof (rule strip_padded)
    show "fixed_point p n \<noteq> []" by (simp add: t)
    show "\<not> isspace (hd (fixed_point p n))"
      using digits_ends(1)[OF digits_of_all_digits digits_of_nonempty, of "n div 10 ^ p"]
        digits_of_nonempty[of "n div 10 ^ p"]
      by (simp add: t not_isspace_digit)
    show "\<not> isspace (last (fixed_point p n))"
      using digits_ends(2)[OF fp(1) fpne] fpne by (simp add: t not_isspace_digit)
  qed
  then have st: "strip (replicate k CHR '' '' @ fixed_point p n) = ?ip @ CHR ''.'' # ?fp"
    by (simp add: t)
  have "real (n div 10 ^ p) + real (n mod 10 ^ p) / 10 ^ p = real n / 10 ^ p"
  proof -
    have "real n = real (n div 10 ^ p * 10 ^ p + n mod 10 ^ p)"
      by (simp only: div_mult_mod_eq)
    also have "\<dots> = real (n div 10 ^ p) * 10 ^ p + real (n mod 10 ^ p)"
      by (simp only: of_nat_add of_nat_mult of_nat_power of_nat_numeral)
    finally have e: "real (n div 10 ^ p) * 10 ^ p + real (n mod 10 ^ p) = real n"
      by (rule sym)
    have "(real (n div 10 ^ p) * 10 ^ p + real (n mod 10 ^ p)) / 10 ^ p
          = real (n div 10 ^ p) + real (n mod 10 ^ p) / 10 ^ p"
      by (simp add: add_divide_distrib)
    then show ?thesis
      unfolding e by (rule sym)
  qed
  with py_float_decimal[OF st digits_of_all_digits digits_of_nonempty fp(1) fpne]
  show ?thesis
    by (simp add: fp(2,3) digits_val_digits_of)
qed

section \<open>The columns of a canonical line 2\<close>

lemma list_of_length:
  "length xs = 2 \<Longrightarrow> \<exists>a b. xs = [a, b]"
  "length xs = 3 \<Longrightarrow> \<exists>a b c. xs = [a, b, c]"
  "length xs = 4 \<Longrightarrow> \<exists>a b c d. xs = [a, b, c, d]"
  "length xs = 5 \<Longrightarrow> \<exists>a b c d e. xs = [a, b, c, d, e]"
  "length xs = 7 \<Longrightarrow> \<exists>a b c d e f g. xs = [a, b, c, d, e, f, g]"
  "length xs = 8 \<Longrightarrow> \<exists>a b c d e f g h. xs = [a, b, c, d, e, f, g, h]"
  by (auto simp: numeral_eq_Suc length_Suc_conv)

lemma rjust_append:
  "length (s @ rest) \<le> w \<Longrightarrow> rjust w c (s @ rest) = rjust (w - length rest) c s @ rest"
  by (simp add: rjust_def)

lemma length_integer_part: "n < 10 ^ (k + p) \<Longrightarrow> 0 < k \<Longrightarrow> length (digits_of (n div 10 ^ p)) \<le> k"
  by (rule length_digits_of) (simp_all add: less_mult_imp_div_less power_add)

lemma fixed_point_shape:
  assumes "n < 10 ^ (k + p)" and "0 < k" and "0 < p"
  shows "rjust (k + 1 + p) CHR '' '' (fixed_point p n)
         = rjust k CHR '' '' (digits_of (n div 10 ^ p)) @ CHR ''.''
           # rjust p CHR ''0'' (digits_of (n mod 10 ^ p))"
    and "length (rjust k CHR '' '' (digits_of (n div 10 ^ p))) = k"
    and "length (rjust p CHR ''0'' (digits_of (n mod 10 ^ p))) = p"
proof -
  note fp = fixed_point_parts[OF assms(3), of n]
  note ip = length_integer_part[OF assms(1,2)]
  show "length (rjust k CHR '' '' (digits_of (n div 10 ^ p))) = k"
    by (rule length_rjust[OF ip])
  show "length (rjust p CHR ''0'' (digits_of (n mod 10 ^ p))) = p"
    by (rule fp(2))
  have "rjust (k + 1 + p) CHR '' '' (digits_of (n div 10 ^ p)
          @ (CHR ''.'' # rjust p CHR ''0'' (digits_of (n mod 10 ^ p))))
        = rjust (k + 1 + p - length (CHR ''.'' # rjust p CHR ''0'' (digits_of (n mod 10 ^ p))))
            CHR '' '' (digits_of (n div 10 ^ p))
          @ (CHR ''.'' # rjust p CHR ''0'' (digits_of (n mod 10 ^ p)))"
    using ip fp(2) by (intro rjust_append) simp
  then show "rjust (k + 1 + p) CHR '' '' (fixed_point p n)
         = rjust k CHR '' '' (digits_of (n div 10 ^ p)) @ CHR ''.''
           # rjust p CHR ''0'' (digits_of (n mod 10 ^ p))"
    by (simp add: fixed_point_def fp(2))
qed

lemma angle_field_shape:
  assumes "n < 10 ^ 7"
  shows "\<exists>b1 b2 b3 f1 f2 f3 f4.
           rjust 8 CHR '' '' (fixed_point 4 n) = [b1, b2, b3, CHR ''.'', f1, f2, f3, f4]"
proof -
  note s = fixed_point_shape[of n 3 4, simplified, OF assms[simplified]]
  from list_of_length(2)[OF s(2)] list_of_length(3)[OF s(3)] s(1)
  show ?thesis by auto
qed

lemma motion_field_shape:
  assumes "n < 10 ^ 10"
  shows "\<exists>b1 b2 f1 f2 f3 f4 f5 f6 f7 f8.
           rjust 11 CHR '' '' (fixed_point 8 n)
           = [b1, b2, CHR ''.'', f1, f2, f3, f4, f5, f6, f7, f8]"
proof -
  note s = fixed_point_shape[of n 2 8, simplified, OF assms[simplified]]
  from list_of_length(1)[OF s(2)] list_of_length(6)[OF s(3)] s(1)
  show ?thesis by auto
qed

lemma number_field_shape:
  assumes "n < 10 ^ 5" and "m < 10 ^ 7" 
  shows "\<exists>a b c d e. rjust 5 fill (digits_of n) = [a, b, c, d, e]"
    and "\<exists>a b c d e f g. rjust 7 fill (digits_of m) = [a, b, c, d, e, f, g]"
  using list_of_length(4)[OF length_rjust[OF length_digits_of[OF assms(1)]], of fill]
    list_of_length(5)[OF length_rjust[OF length_digits_of[OF assms(2)]], of fill]
  by simp_all

lemma py_float_angle_field:
  "0 < p \<Longrightarrow> py_float (rjust w CHR '' '' (fixed_point p n)) = Inr (real n / 10 ^ p)"
  by (simp add: rjust_def py_float_fixed_point)

lemma replace_space_zero_id: "list_all isdigit s \<Longrightarrow> replace_space_zero s = s"
proof -
  have "isdigit c \<Longrightarrow> c \<noteq> CHR '' ''" for c
    by (auto simp: isdigit_def code_of_def)
  then show "list_all isdigit s \<Longrightarrow> replace_space_zero s = s"
    by (induction s) (auto simp: replace_space_zero_def)
qed

lemma py_float_ecc_field:
  assumes "n < 10 ^ 7"
  shows "py_float (''0.'' @ replace_space_zero (rjust 7 CHR ''0'' (digits_of n)))
         = Inr (real n / 10 ^ 7)"
proof -
  let ?e = "rjust 7 CHR ''0'' (digits_of n)"
  have d: "list_all isdigit ?e"
    by (rule all_digits_zero_fill[OF digits_of_all_digits])
  have l: "length ?e = 7"
    by (rule length_rjust[OF length_digits_of[OF assms]]) simp
  then have ne: "?e \<noteq> []" by auto
  have v: "digits_val ?e = n"
    by (simp add: rjust_def digits_val_zero_fill digits_val_digits_of)
  from py_float_implied_fraction[OF d ne] show ?thesis
    by (simp add: replace_space_zero_id[OF d] l v)
qed

lemma checksum_digit:
  "\<exists>k. py_str (compute_checksum s) = [k] \<and> isdigit k"
proof -
  have "nat (compute_checksum s) < 10"
    using compute_checksum_range[of s] by auto
  then show ?thesis
    using compute_checksum_range[of s] by (simp add: py_str_digit isdigit_digit_char)
qed

text \<open>The canonical line 2, column by column.\<close>

lemma canonical_line2_columns:
  assumes "line2_values_ok v"
  obtains a1 a2 a3 a4 a5 i1 i2 i3 i5 i6 i7 i8 n1 n2 n3 n5 n6 n7 n8 e1 e2 e3 e4 e5 e6 e7
    g1 g2 g3 g5 g6 g7 g8 m1 m2 m3 m5 m6 m7 m8 q1 q2 q4 q5 q6 q7 q8 q9 q10 q11
    r1 r2 r3 r4 r5 k
  where "rjust 5 CHR ''0'' (digits_of (c_satnum v)) = [a1, a2, a3, a4, a5]"
    and "rjust 8 CHR '' '' (fixed_point 4 (c_incl v)) = [i1, i2, i3, CHR ''.'', i5, i6, i7, i8]"
    and "rjust 8 CHR '' '' (fixed_point 4 (c_node v)) = [n1, n2, n3, CHR ''.'', n5, n6, n7, n8]"
    and "rjust 7 CHR ''0'' (digits_of (c_ecc v)) = [e1, e2, e3, e4, e5, e6, e7]"
    and "rjust 8 CHR '' '' (fixed_point 4 (c_argp v)) = [g1, g2, g3, CHR ''.'', g5, g6, g7, g8]"
    and "rjust 8 CHR '' '' (fixed_point 4 (c_mo v)) = [m1, m2, m3, CHR ''.'', m5, m6, m7, m8]"
    and "rjust 11 CHR '' '' (fixed_point 8 (c_mm v))
         = [q1, q2, CHR ''.'', q4, q5, q6, q7, q8, q9, q10, q11]"
    and "rjust 5 CHR '' '' (digits_of (c_revnum v)) = [r1, r2, r3, r4, r5]"
    and "py_str (compute_checksum (canonical_body2 v)) = [k]" and "isdigit k"
    and "canonical_body2 v
         = [CHR ''2'', CHR '' '', a1, a2, a3, a4, a5, CHR '' '',
            i1, i2, i3, CHR ''.'', i5, i6, i7, i8, CHR '' '',
            n1, n2, n3, CHR ''.'', n5, n6, n7, n8, CHR '' '',
            e1, e2, e3, e4, e5, e6, e7, CHR '' '',
            g1, g2, g3, CHR ''.'', g5, g6, g7, g8, CHR '' '',
            m1, m2, m3, CHR ''.'', m5, m6, m7, m8, CHR '' '',
            q1, q2, CHR ''.'', q4, q5, q6, q7, q8, q9, q10, q11,
            r1, r2, r3, r4, r5]"
proof -
  from assms have ok: "c_satnum v < 10 ^ 5" "c_incl v < 10 ^ 7" "c_node v < 10 ^ 7"
    "c_ecc v < 10 ^ 7" "c_argp v < 10 ^ 7" "c_mo v < 10 ^ 7" "c_mm v < 10 ^ 10"
    "c_revnum v < 10 ^ 5"
    by (simp_all add: line2_values_ok_def)
  from number_field_shape(1)[OF ok(1) ok(4), of "CHR ''0''"]
  obtain a1 a2 a3 a4 a5
    where a: "rjust 5 CHR ''0'' (digits_of (c_satnum v)) = [a1, a2, a3, a4, a5]"
    by blast
  from angle_field_shape[OF ok(2)] obtain i1 i2 i3 i5 i6 i7 i8
    where i: "rjust 8 CHR '' '' (fixed_point 4 (c_incl v)) = [i1, i2, i3, CHR ''.'', i5, i6, i7, i8]"
    by blast
  from angle_field_shape[OF ok(3)] obtain n1 n2 n3 n5 n6 n7 n8
    where n: "rjust 8 CHR '' '' (fixed_point 4 (c_node v)) = [n1, n2, n3, CHR ''.'', n5, n6, n7, n8]"
    by blast
  from number_field_shape(2)[OF ok(1) ok(4), of "CHR ''0''"]
  obtain e1 e2 e3 e4 e5 e6 e7
    where e: "rjust 7 CHR ''0'' (digits_of (c_ecc v)) = [e1, e2, e3, e4, e5, e6, e7]"
    by blast
  from angle_field_shape[OF ok(5)] obtain g1 g2 g3 g5 g6 g7 g8
    where g: "rjust 8 CHR '' '' (fixed_point 4 (c_argp v)) = [g1, g2, g3, CHR ''.'', g5, g6, g7, g8]"
    by blast
  from angle_field_shape[OF ok(6)] obtain m1 m2 m3 m5 m6 m7 m8
    where m: "rjust 8 CHR '' '' (fixed_point 4 (c_mo v)) = [m1, m2, m3, CHR ''.'', m5, m6, m7, m8]"
    by blast
  from motion_field_shape[OF ok(7)] obtain q1 q2 q4 q5 q6 q7 q8 q9 q10 q11
    where q: "rjust 11 CHR '' '' (fixed_point 8 (c_mm v))
              = [q1, q2, CHR ''.'', q4, q5, q6, q7, q8, q9, q10, q11]"
    by blast
  from number_field_shape(1)[OF ok(8) ok(4), of "CHR '' ''"]
  obtain r1 r2 r3 r4 r5
    where r: "rjust 5 CHR '' '' (digits_of (c_revnum v)) = [r1, r2, r3, r4, r5]"
    by blast
  from checksum_digit[of "canonical_body2 v"] obtain k
    where k: "py_str (compute_checksum (canonical_body2 v)) = [k]" "isdigit k"
    by blast
  have body: "canonical_body2 v
         = [CHR ''2'', CHR '' '', a1, a2, a3, a4, a5, CHR '' '',
            i1, i2, i3, CHR ''.'', i5, i6, i7, i8, CHR '' '',
            n1, n2, n3, CHR ''.'', n5, n6, n7, n8, CHR '' '',
            e1, e2, e3, e4, e5, e6, e7, CHR '' '',
            g1, g2, g3, CHR ''.'', g5, g6, g7, g8, CHR '' '',
            m1, m2, m3, CHR ''.'', m5, m6, m7, m8, CHR '' '',
            q1, q2, CHR ''.'', q4, q5, q6, q7, q8, q9, q10, q11,
            r1, r2, r3, r4, r5]"
    unfolding canonical_body2_def a i n e g m q r by simp
  from a i n e g m q r k body show thesis
    by (rule that)
qed

lemma parse_canonical_line2:
  assumes "line2_values_ok v"
  shows "parse_line2 (int (c_satnum v)) (rstrip (canonical_line2 v))
         = Inr \<lparr> l2_satnum = int (c_satnum v), l2_inclo = real (c_incl v) / 10 ^ 4,
                 l2_nodeo = real (c_node v) / 10 ^ 4, l2_ecco = real (c_ecc v) / 10 ^ 7,
                 l2_argpo = real (c_argp v) / 10 ^ 4, l2_mo = real (c_mo v) / 10 ^ 4,
                 l2_no_kozai = real (c_mm v) / 10 ^ 8, l2_revnum = int (c_revnum v) \<rparr>"
proof -
  from assms have ok: "c_ecc v < 10 ^ 7"
    by (simp add: line2_values_ok_def)
  obtain a1 a2 a3 a4 a5 i1 i2 i3 i5 i6 i7 i8 n1 n2 n3 n5 n6 n7 n8 e1 e2 e3 e4 e5 e6 e7
    g1 g2 g3 g5 g6 g7 g8 m1 m2 m3 m5 m6 m7 m8 q1 q2 q4 q5 q6 q7 q8 q9 q10 q11
    r1 r2 r3 r4 r5 k
  where a: "rjust 5 CHR ''0'' (digits_of (c_satnum v)) = [a1, a2, a3, a4, a5]"
    and i: "rjust 8 CHR '' '' (fixed_point 4 (c_incl v)) = [i1, i2, i3, CHR ''.'', i5, i6, i7, i8]"
    and n: "rjust 8 CHR '' '' (fixed_point 4 (c_node v)) = [n1, n2, n3, CHR ''.'', n5, n6, n7, n8]"
    and e: "rjust 7 CHR ''0'' (digits_of (c_ecc v)) = [e1, e2, e3, e4, e5, e6, e7]"
    and g: "rjust 8 CHR '' '' (fixed_point 4 (c_argp v)) = [g1, g2, g3, CHR ''.'', g5, g6, g7, g8]"
    and m: "rjust 8 CHR '' '' (fixed_point 4 (c_mo v)) = [m1, m2, m3, CHR ''.'', m5, m6, m7, m8]"
    and q: "rjust 11 CHR '' '' (fixed_point 8 (c_mm v))
            = [q1, q2, CHR ''.'', q4, q5, q6, q7, q8, q9, q10, q11]"
    and r: "rjust 5 CHR '' '' (digits_of (c_revnum v)) = [r1, r2, r3, r4, r5]"
    and k: "py_str (compute_checksum (canonical_body2 v)) = [k]" and kd: "isdigit k"
    and body: "canonical_body2 v
         = [CHR ''2'', CHR '' '', a1, a2, a3, a4, a5, CHR '' '',
            i1, i2, i3, CHR ''.'', i5, i6, i7, i8, CHR '' '',
            n1, n2, n3, CHR ''.'', n5, n6, n7, n8, CHR '' '',
            e1, e2, e3, e4, e5, e6, e7, CHR '' '',
            g1, g2, g3, CHR ''.'', g5, g6, g7, g8, CHR '' '',
            m1, m2, m3, CHR ''.'', m5, m6, m7, m8, CHR '' '',
            q1, q2, CHR ''.'', q4, q5, q6, q7, q8, q9, q10, q11,
            r1, r2, r3, r4, r5]"
    by (rule canonical_line2_columns[OF assms])
  have line: "canonical_line2 v
        = [CHR ''2'', CHR '' '', a1, a2, a3, a4, a5, CHR '' '',
           i1, i2, i3, CHR ''.'', i5, i6, i7, i8, CHR '' '',
           n1, n2, n3, CHR ''.'', n5, n6, n7, n8, CHR '' '',
           e1, e2, e3, e4, e5, e6, e7, CHR '' '',
           g1, g2, g3, CHR ''.'', g5, g6, g7, g8, CHR '' '',
           m1, m2, m3, CHR ''.'', m5, m6, m7, m8, CHR '' '',
           q1, q2, CHR ''.'', q4, q5, q6, q7, q8, q9, q10, q11,
           r1, r2, r3, r4, r5, k]"
    unfolding canonical_line2_def k unfolding body by simp
  have ks: "\<not> isspace k"
    by (rule not_isspace_digit[OF kd])
  have va: "py_int [a1, a2, a3, a4, a5] = Inr (int (c_satnum v))"
    using py_int_zero_filled[of 5 "c_satnum v"] unfolding a .
  have vi: "py_float [i1, i2, i3, CHR ''.'', i5, i6, i7, i8] = Inr (real (c_incl v) / 10 ^ 4)"
    using py_float_angle_field[of 4 8 "c_incl v"] unfolding i by simp
  have vn: "py_float [n1, n2, n3, CHR ''.'', n5, n6, n7, n8] = Inr (real (c_node v) / 10 ^ 4)"
    using py_float_angle_field[of 4 8 "c_node v"] unfolding n by simp
  have ve: "py_float (CHR ''0'' # CHR ''.'' # replace_space_zero [e1, e2, e3, e4, e5, e6, e7])
            = Inr (real (c_ecc v) / 10 ^ 7)"
    using py_float_ecc_field[OF ok] unfolding e by simp
  have vg: "py_float [g1, g2, g3, CHR ''.'', g5, g6, g7, g8] = Inr (real (c_argp v) / 10 ^ 4)"
    using py_float_angle_field[of 4 8 "c_argp v"] unfolding g by simp
  have vm: "py_float [m1, m2, m3, CHR ''.'', m5, m6, m7, m8] = Inr (real (c_mo v) / 10 ^ 4)"
    using py_float_angle_field[of 4 8 "c_mo v"] unfolding m by simp
  have vq: "py_float [q1, q2, CHR ''.'', q4, q5, q6, q7, q8, q9, q10, q11]
            = Inr (real (c_mm v) / 10 ^ 8)"
    using py_float_angle_field[of 8 11 "c_mm v"] unfolding q by simp
  have vr: "py_int [r1, r2, r3, r4, r5] = Inr (int (c_revnum v))"
    using py_int_padded_digits[of "5 - length (digits_of (c_revnum v))" "c_revnum v"]
    unfolding rjust_def[symmetric] r .
  show ?thesis
    unfolding line
    by (simp add: parse_line2_def line2_ok_def startswith_def rstrip_def ks py_slice_def
        and_then_Inr va vi vn ve vg vm vq vr)
qed

section \<open>Writing canonical fields\<close>

lemma rjust_Suc: "length s \<le> w \<Longrightarrow> rjust (Suc w) c s = c # rjust w c s"
  by (simp add: rjust_def Suc_diff_le)

lemma py_trunc_below_one: "y < 1 \<Longrightarrow> py_trunc y \<le> 0"
  by (auto simp: py_trunc_def floor_le_iff ceiling_le_iff)

lemma fmt_right_fixed:
  "fmt_right_f w p (real n / 10 ^ p) = rjust w CHR '' '' (fixed_point p n)"
  by (simp add: fmt_right_f_def fmt_f_fixed_point)

lemma fmt_ecc_field:
  assumes "n < 10 ^ 7"
  shows "drop 2 (fmt_right_f 8 7 (real n / 10 ^ 7)) = rjust 7 CHR ''0'' (digits_of n)"
proof -
  have fp: "fixed_point 7 n = ''0.'' @ rjust 7 CHR ''0'' (digits_of n)"
    using assms by (simp add: fixed_point_def digits_of_small digit_char_literals)
  have len: "length (rjust 7 CHR ''0'' (digits_of n)) = 7"
    by (rule length_rjust[OF length_digits_of[OF assms]]) simp
  have "rjust 8 CHR '' '' (''0.'' @ rjust 7 CHR ''0'' (digits_of n))
        = ''0.'' @ rjust 7 CHR ''0'' (digits_of n)"
    unfolding rjust_def[of 8] using len by simp
  then show ?thesis
    unfolding fmt_right_fixed fp by simp
qed

lemma fmt_number_fields:
  "fmt_zero_d w (int n) = rjust w CHR ''0'' (digits_of n)"
  "fmt_right_d w (int n) = rjust w CHR '' '' (digits_of n)"
  by (simp_all add: fmt_zero_d_def fmt_right_d_def py_str_def)

text \<open>The three layouts of the inclination: which branch the formatter takes, and what
  it writes there.\<close>

lemma inclination_branch:
  assumes "0 < n" and "n < 10 ^ 7"
    and "rjust 8 CHR '' '' (fixed_point 4 n) = [i1, i2, i3, CHR ''.'', i5, i6, i7, i8]"
  shows "py_log10 (real n / 10 ^ 4) = Inr (log 10 (real n / 10 ^ 4))"
    and "10 ^ 6 \<le> n \<Longrightarrow> py_trunc (log 10 (real n / 10 ^ 4)) = 2"
    and "10 ^ 5 \<le> n \<Longrightarrow> n < 10 ^ 6 \<Longrightarrow>
           py_trunc (log 10 (real n / 10 ^ 4)) = 1 \<and> i1 = CHR '' ''
           \<and> fmt_right_f 7 4 (real n / 10 ^ 4) = [i2, i3, CHR ''.'', i5, i6, i7, i8]"
    and "n < 10 ^ 5 \<Longrightarrow>
           py_trunc (log 10 (real n / 10 ^ 4)) \<noteq> 2 \<and> py_trunc (log 10 (real n / 10 ^ 4)) \<noteq> 1
           \<and> i1 = CHR '' '' \<and> i2 = CHR '' ''
           \<and> fmt_right_f 6 4 (real n / 10 ^ 4) = [i3, CHR ''.'', i5, i6, i7, i8]"
proof -
  let ?x = "real n / 10 ^ 4"
  have pos: "0 < ?x"
    using assms(1) by simp
  then show "py_log10 ?x = Inr (log 10 ?x)"
    by (simp add: py_log10_def)
  have len: "length (fixed_point 4 n) = length (digits_of (n div 10 ^ 4)) + 5"
    using fixed_point_parts(2)[of 4 n] by (simp add: fixed_point_def)
  {
    assume "10 ^ 6 \<le> n"
    then have "10 ^ 2 \<le> ?x" "?x < 10 ^ Suc 2"
      using assms(2) by (simp_all add: field_simps)
    from trunc_log10_positive[OF this] show "py_trunc (log 10 ?x) = 2"
      by simp
  }
  {
    assume lo: "10 ^ 5 \<le> n" and hi: "n < 10 ^ 6"
    then have "10 ^ 1 \<le> ?x" "?x < 10 ^ Suc 1"
      by (simp_all add: field_simps)
    from trunc_log10_positive[OF this] have t: "py_trunc (log 10 ?x) = 1"
      by simp
    have "length (digits_of (n div 10 ^ 4)) \<le> 2"
      using hi by (intro length_integer_part[of n 2 4]) simp_all
    then have "length (fixed_point 4 n) \<le> 7"
      using len by simp
    from rjust_Suc[OF this, of "CHR '' ''"] assms(3)
    have "CHR '' '' # rjust 7 CHR '' '' (fixed_point 4 n)
          = [i1, i2, i3, CHR ''.'', i5, i6, i7, i8]"
      by simp
    with t show "py_trunc (log 10 ?x) = 1 \<and> i1 = CHR '' ''
           \<and> fmt_right_f 7 4 ?x = [i2, i3, CHR ''.'', i5, i6, i7, i8]"
      unfolding fmt_right_fixed by auto
  }
  {
    assume hi: "n < 10 ^ 5"
    then have "?x < 10"
      by (simp add: field_simps)
    then have "log 10 ?x < 1"
      using pos by (simp add: log_less_iff)
    from py_trunc_below_one[OF this]
    have t: "py_trunc (log 10 ?x) \<noteq> 2 \<and> py_trunc (log 10 ?x) \<noteq> 1"
      by simp
    have "length (digits_of (n div 10 ^ 4)) \<le> 1"
      using hi by (intro length_integer_part[of n 1 4]) simp_all
    then have l6: "length (fixed_point 4 n) \<le> 6"
      using len by simp
    then have l7: "length (fixed_point 4 n) \<le> 7"
      by simp
    from rjust_Suc[OF l7, of "CHR '' ''"] rjust_Suc[OF l6, of "CHR '' ''"] assms(3)
    have "CHR '' '' # CHR '' '' # rjust 6 CHR '' '' (fixed_point 4 n)
          = [i1, i2, i3, CHR ''.'', i5, i6, i7, i8]"
      by simp
    with t show "py_trunc (log 10 ?x) \<noteq> 2 \<and> py_trunc (log 10 ?x) \<noteq> 1
           \<and> i1 = CHR '' '' \<and> i2 = CHR '' ''
           \<and> fmt_right_f 6 4 ?x = [i3, CHR ''.'', i5, i6, i7, i8]"
      unfolding fmt_right_fixed by auto
  }
qed

lemma format_canonical_line2:
  assumes "line2_values_ok v" and "has_line2_values sat v"
  shows "rv2twoline_line2 sat = Inr (canonical_line2 v)"
proof -
  from assms(1) have ok: "0 < c_incl v" "c_incl v < 10 ^ 7" "c_ecc v < 10 ^ 7"
    by (simp_all add: line2_values_ok_def)
  obtain a1 a2 a3 a4 a5 i1 i2 i3 i5 i6 i7 i8 n1 n2 n3 n5 n6 n7 n8 e1 e2 e3 e4 e5 e6 e7
    g1 g2 g3 g5 g6 g7 g8 m1 m2 m3 m5 m6 m7 m8 q1 q2 q4 q5 q6 q7 q8 q9 q10 q11
    r1 r2 r3 r4 r5 k
  where a: "rjust 5 CHR ''0'' (digits_of (c_satnum v)) = [a1, a2, a3, a4, a5]"
    and i: "rjust 8 CHR '' '' (fixed_point 4 (c_incl v)) = [i1, i2, i3, CHR ''.'', i5, i6, i7, i8]"
    and n: "rjust 8 CHR '' '' (fixed_point 4 (c_node v)) = [n1, n2, n3, CHR ''.'', n5, n6, n7, n8]"
    and e: "rjust 7 CHR ''0'' (digits_of (c_ecc v)) = [e1, e2, e3, e4, e5, e6, e7]"
    and g: "rjust 8 CHR '' '' (fixed_point 4 (c_argp v)) = [g1, g2, g3, CHR ''.'', g5, g6, g7, g8]"
    and m: "rjust 8 CHR '' '' (fixed_point 4 (c_mo v)) = [m1, m2, m3, CHR ''.'', m5, m6, m7, m8]"
    and q: "rjust 11 CHR '' '' (fixed_point 8 (c_mm v))
            = [q1, q2, CHR ''.'', q4, q5, q6, q7, q8, q9, q10, q11]"
    and r: "rjust 5 CHR '' '' (digits_of (c_revnum v)) = [r1, r2, r3, r4, r5]"
    and k: "py_str (compute_checksum (canonical_body2 v)) = [k]" and kd: "isdigit k"
    and body: "canonical_body2 v
         = [CHR ''2'', CHR '' '', a1, a2, a3, a4, a5, CHR '' '',
            i1, i2, i3, CHR ''.'', i5, i6, i7, i8, CHR '' '',
            n1, n2, n3, CHR ''.'', n5, n6, n7, n8, CHR '' '',
            e1, e2, e3, e4, e5, e6, e7, CHR '' '',
            g1, g2, g3, CHR ''.'', g5, g6, g7, g8, CHR '' '',
            m1, m2, m3, CHR ''.'', m5, m6, m7, m8, CHR '' '',
            q1, q2, CHR ''.'', q4, q5, q6, q7, q8, q9, q10, q11,
            r1, r2, r3, r4, r5]"
    by (rule canonical_line2_columns[OF assms(1)])
  have line: "canonical_line2 v = canonical_body2 v @ [k]"
    by (simp add: canonical_line2_def k)
  define incl where "incl = inclo sat / deg2rad"
  define node where "node = nodeo sat / deg2rad"
  define argp where "argp = argpo sat / deg2rad"
  define manom where "manom = mo sat / deg2rad"
  define mmot where "mmot = no_kozai sat * xpdotp"
  from assms(2) have v: "incl = real (c_incl v) / 10 ^ 4" "node = real (c_node v) / 10 ^ 4"
    "argp = real (c_argp v) / 10 ^ 4" "manom = real (c_mo v) / 10 ^ 4"
    "mmot = real (c_mm v) / 10 ^ 8" "ecco sat = real (c_ecc v) / 10 ^ 7"
    "satnum sat = int (c_satnum v)" "revnum sat = int (c_revnum v)"
    unfolding incl_def node_def argp_def manom_def mmot_def has_line2_values_def
    using deg2rad_nonzero xpdotp_nonzero by simp_all
  have fa: "fmt_zero_d 5 (satnum sat) = [a1, a2, a3, a4, a5]"
    unfolding v fmt_number_fields a ..
  have fn: "fmt_right_f 8 4 node = [n1, n2, n3, CHR ''.'', n5, n6, n7, n8]"
    unfolding v fmt_right_fixed n ..
  have fe: "drop 2 (fmt_right_f 8 7 (ecco sat)) = [e1, e2, e3, e4, e5, e6, e7]"
    unfolding v fmt_ecc_field[OF ok(3)] e ..
  have fg: "fmt_right_f 8 4 argp = [g1, g2, g3, CHR ''.'', g5, g6, g7, g8]"
    unfolding v fmt_right_fixed g ..
  have fm: "fmt_right_f 8 4 manom = [m1, m2, m3, CHR ''.'', m5, m6, m7, m8]"
    unfolding v fmt_right_fixed m ..
  have fq: "fmt_right_f 11 8 mmot = [q1, q2, CHR ''.'', q4, q5, q6, q7, q8, q9, q10, q11]"
    unfolding v fmt_right_fixed q ..
  have fr: "fmt_right_d 5 (revnum sat) = [r1, r2, r3, r4, r5]"
    unfolding v fmt_number_fields r ..
  have f8: "fmt_right_f 8 4 incl = [i1, i2, i3, CHR ''.'', i5, i6, i7, i8]"
    unfolding v fmt_right_fixed i ..
  note br = inclination_branch[OF ok(1,2) i, folded v(1)]
  have "compute_checksum (canonical_body2 v @ '' '') = compute_checksum (canonical_body2 v)"
    by (simp add: compute_checksum_def py_slice_def body)
  then have "py_str (compute_checksum (canonical_body2 v @ '' '')) = [k]"
    by (simp add: k)
  note kk = this[unfolded body, simplified]
  note fields = fa fn fe fg fm fq fr br(1)
  consider (wide) "10 ^ 6 \<le> c_incl v" | (middle) "10 ^ 5 \<le> c_incl v" "c_incl v < 10 ^ 6"
    | (narrow) "c_incl v < 10 ^ 5"
    by linarith
  then have "rv2twoline_line2 sat
      = Inr ([CHR ''2'', CHR '' '', a1, a2, a3, a4, a5, CHR '' '',
            i1, i2, i3, CHR ''.'', i5, i6, i7, i8, CHR '' '',
            n1, n2, n3, CHR ''.'', n5, n6, n7, n8, CHR '' '',
            e1, e2, e3, e4, e5, e6, e7, CHR '' '',
            g1, g2, g3, CHR ''.'', g5, g6, g7, g8, CHR '' '',
            m1, m2, m3, CHR ''.'', m5, m6, m7, m8, CHR '' '',
            q1, q2, CHR ''.'', q4, q5, q6, q7, q8, q9, q10, q11,
            r1, r2, r3, r4, r5, k])"
  proof cases
    case wide
    note t = br(2)[OF wide]
    show ?thesis
      unfolding rv2twoline_line2_def incl_def[symmetric] node_def[symmetric]
        argp_def[symmetric] manom_def[symmetric] mmot_def[symmetric]
      by (simp add: assemble_defs fields kk t f8 cong: let_weak_cong and_then_weak_cong)
  next
    case middle
    note t = br(3)[OF middle]
    show ?thesis
      unfolding rv2twoline_line2_def incl_def[symmetric] node_def[symmetric]
        argp_def[symmetric] manom_def[symmetric] mmot_def[symmetric]
      using kk t
      by (simp add: assemble_defs fields cong: let_weak_cong and_then_weak_cong)
  next
    case narrow
    note t = br(4)[OF narrow]
    show ?thesis
      unfolding rv2twoline_line2_def incl_def[symmetric] node_def[symmetric]
        argp_def[symmetric] manom_def[symmetric] mmot_def[symmetric]
      using kk t
      by (simp add: assemble_defs fields cong: let_weak_cong and_then_weak_cong)
  qed
  then show ?thesis
    unfolding line body by simp
qed

end
